theory Spec2Isabelle
  imports Main
begin

section \<open>Meeting minutes: the action handlers of \<^verbatim>\<open>src/actions/index.ts\<close>\<close>

text \<open>
  The handlers are modelled as functions from the stored tables to a result and the
  tables afterwards. A thrown \<^verbatim>\<open>ActionError\<close> is the left summand of the result; the
  tables are returned next to it, so that what a failed call leaves behind is part of
  what is proved. Every handler is modelled on the input its schema has already parsed:
  the framework checks the schema before it calls the handler.
\<close>

subsection \<open>Data model\<close>

type_synonym timestamp = int

text \<open>The request context: \<^verbatim>\<open>context.locals\<close> may be undefined, and so may its user.\<close>

record app_user =
  user_id :: string

record app_locals =
  user :: "app_user option"

record api_context =
  locals :: "app_locals option"

text \<open>
  The codes of the two \<^verbatim>\<open>ActionError\<close>s the handlers throw, the code of the error the
  framework raises for input the schema rejects, and the exception of the storage layer
  when it refuses a statement (a primary key that is taken or missing, a row that is
  still referenced).
\<close>

datatype error = UNAUTHORIZED | NOT_FOUND | BAD_REQUEST | STORAGE_ERROR

text \<open>
  The three tables of \<^verbatim>\<open>db/config.ts\<close>. An optional column holds an option. The handlers
  always give a meeting its id; they insert sections and action items without one, so
  the key column of these two tables holds an option as well.
\<close>

record meeting =
  m_id :: string
  m_userId :: string
  m_title :: string
  m_sourceType :: "string option"
  m_sourceUrl :: "string option"
  m_scheduledAt :: "timestamp option"
  m_durationMinutes :: "int option"
  m_createdAt :: timestamp
  m_updatedAt :: timestamp

record meeting_section =
  s_id :: "string option"
  s_meetingId :: string
  s_type :: string
  s_orderIndex :: int
  s_content :: string
  s_createdAt :: timestamp

record action_item =
  a_id :: "string option"
  a_meetingId :: string
  a_assignee :: "string option"
  a_description :: string
  a_dueDate :: "timestamp option"
  a_status :: "string option"
  a_createdAt :: timestamp
  a_updatedAt :: timestamp

record db =
  Meetings :: "meeting list"
  MeetingSections :: "meeting_section list"
  ActionItems :: "action_item list"

subsection \<open>Parsed inputs and their schemas\<close>

record createMeeting_input =
  cm_id :: "string option"
  cm_title :: string
  cm_sourceType :: "string option"
  cm_sourceUrl :: "string option"
  cm_scheduledAt :: "timestamp option"
  cm_durationMinutes :: "int option"

record updateMeeting_input =
  um_id :: string
  um_title :: "string option"
  um_sourceType :: "string option"
  um_sourceUrl :: "string option"
  um_scheduledAt :: "timestamp option"
  um_durationMinutes :: "int option"

record deleteMeeting_input =
  dm_id :: string

record saveSection_input =
  ss_id :: "string option"
  ss_meetingId :: string
  ss_type :: string
  ss_orderIndex :: int
  ss_content :: string

record deleteSection_input =
  ds_id :: string
  ds_meetingId :: string

record saveActionItem_input =
  sa_id :: "string option"
  sa_meetingId :: string
  sa_assignee :: "string option"
  sa_description :: string
  sa_dueDate :: "timestamp option"
  sa_status :: "string option"

record listActionItems_input =
  la_meetingId :: "string option"

text \<open>\<^verbatim>\<open>z.number().int().positive().optional()\<close> and \<^verbatim>\<open>z.string().min(1).optional()\<close>.\<close>

definition positive_opt :: "int option \<Rightarrow> bool" where
  "positive_opt v = (case v of None \<Rightarrow> True | Some n \<Rightarrow> 0 < n)"

definition nonempty_opt :: "string option \<Rightarrow> bool" where
  "nonempty_opt v = (case v of None \<Rightarrow> True | Some s \<Rightarrow> s \<noteq> [])"

definition createMeeting_schema :: "createMeeting_input \<Rightarrow> bool" where
  "createMeeting_schema i = (cm_title i \<noteq> [] \<and> positive_opt (cm_durationMinutes i))"

definition updateMeeting_schema :: "updateMeeting_input \<Rightarrow> bool" where
  "updateMeeting_schema i = (nonempty_opt (um_title i) \<and> positive_opt (um_durationMinutes i))"

definition saveSection_schema :: "saveSection_input \<Rightarrow> bool" where
  "saveSection_schema i = (ss_type i \<noteq> [] \<and> 0 < ss_orderIndex i \<and> ss_content i \<noteq> [])"

definition saveActionItem_schema :: "saveActionItem_input \<Rightarrow> bool" where
  "saveActionItem_schema i = (sa_description i \<noteq> [])"

text \<open>
  The other four schemas constrain the types of their fields only, and the input records
  have these types: \<^verbatim>\<open>z.object({}).optional()\<close>, \<^verbatim>\<open>{id: z.string()}\<close>,
  \<^verbatim>\<open>{id: z.string(), meetingId: z.string()}\<close> and
  \<^verbatim>\<open>z.object({meetingId: z.string().optional()}).optional()\<close>.
\<close>

definition listMeetings_schema :: "unit option \<Rightarrow> bool" where
  "listMeetings_schema i = True"

definition deleteMeeting_schema :: "deleteMeeting_input \<Rightarrow> bool" where
  "deleteMeeting_schema i = True"

definition deleteSection_schema :: "deleteSection_input \<Rightarrow> bool" where
  "deleteSection_schema i = True"

definition listActionItems_schema :: "listActionItems_input option \<Rightarrow> bool" where
  "listActionItems_schema i = True"

subsection \<open>The storage layer\<close>

text \<open>
  The storage library (\<^verbatim>\<open>astro:db\<close>) is not part of the repository. A table is the list
  of its rows; \<^verbatim>\<open>select\<close>, \<^verbatim>\<open>update\<close> and \<^verbatim>\<open>delete\<close> act on the rows their \<^verbatim>\<open>where\<close>
  condition holds of, and \<^verbatim>\<open>returning()\<close> gives the rows written or removed.

  Three things the handlers leave to the library are parameters of the model:
  \<^item> \<open>accepts_null_key\<close>: whether a row inserted with no value for its primary key is
    stored with an empty key (as SQLite does for a text key) or refused;
  \<^item> \<open>set_ignores_undefined\<close>: whether \<^verbatim>\<open>update(...).set(values)\<close> skips a column
    whose value is \<^verbatim>\<open>undefined\<close> (as the query builder under \<^verbatim>\<open>astro:db\<close> documents)
    or writes it as absent;
  \<^item> \<open>enforces_references\<close>: whether the \<^verbatim>\<open>references\<close> that \<^verbatim>\<open>db/config.ts\<close> declares
    from \<open>MeetingSections.meetingId\<close> and \<open>ActionItems.meetingId\<close> to \<open>Meetings.id\<close> are
    checked. The handlers insert and update a section or an item only under a meeting
    they have just loaded, and never change a meeting's id, so the one statement a
    checked reference can refuse is the \<^verbatim>\<open>delete\<close> of a meeting that still has
    sections or items.
\<close>

record engine =
  accepts_null_key :: bool
  set_ignores_undefined :: bool
  enforces_references :: bool

text \<open>\<^verbatim>\<open>const [x] = rows\<close>: the first row, or undefined.\<close>

definition first :: "'r list \<Rightarrow> 'r option" where
  "first rows = (case rows of [] \<Rightarrow> None | r # _ \<Rightarrow> Some r)"

text \<open>\<^verbatim>\<open>db.select().from(T).where(P).limit(1)\<close>.\<close>

definition db_select1 :: "('r \<Rightarrow> bool) \<Rightarrow> 'r list \<Rightarrow> 'r list" where
  "db_select1 P rows = take 1 (filter P rows)"

text \<open>\<^verbatim>\<open>db.update(T).set(f).where(P).returning()\<close>: the table afterwards, and the rows written.\<close>

definition db_update :: "('r \<Rightarrow> 'r) \<Rightarrow> ('r \<Rightarrow> bool) \<Rightarrow> 'r list \<Rightarrow> 'r list \<times> 'r list" where
  "db_update f P rows = (map (\<lambda>r. if P r then f r else r) rows, map f (filter P rows))"

text \<open>\<^verbatim>\<open>db.delete(T).where(P).returning()\<close>: the table afterwards, and the rows removed.\<close>

definition db_delete :: "('r \<Rightarrow> bool) \<Rightarrow> 'r list \<Rightarrow> 'r list \<times> 'r list" where
  "db_delete P rows = (filter (\<lambda>r. \<not> P r) rows, filter P rows)"

text \<open>
  The same on a table that others reference: where references are checked, the
  statement is refused when a row it would remove is still referenced.
\<close>

definition db_delete_referenced ::
  "engine \<Rightarrow> ('r \<Rightarrow> bool) \<Rightarrow> ('r \<Rightarrow> bool) \<Rightarrow> 'r list \<Rightarrow> ('r list \<times> 'r list) option" where
  "db_delete_referenced eng referenced P rows =
     (if enforces_references eng \<and> list_ex referenced (filter P rows) then None
      else Some (db_delete P rows))"

text \<open>
  \<^verbatim>\<open>db.insert(T).values(row).returning()\<close> on a table with a primary key: a key that is
  taken is refused, a missing key is the engine's to accept.
\<close>

definition db_insert :: "engine \<Rightarrow> ('r \<Rightarrow> string option) \<Rightarrow> 'r \<Rightarrow> 'r list \<Rightarrow> 'r list option" where
  "db_insert eng key row rows =
     (case key row of
        None \<Rightarrow> if accepts_null_key eng then Some (rows @ [row]) else None
      | Some k \<Rightarrow> if Some k \<in> set (map key rows) then None else Some (rows @ [row]))"

text \<open>A column of \<^verbatim>\<open>set(values)\<close> whose value may be undefined.\<close>

definition set_column :: "engine \<Rightarrow> 'a option \<Rightarrow> 'a option \<Rightarrow> 'a option" where
  "set_column eng v stored =
     (case v of Some x \<Rightarrow> Some x
      | None \<Rightarrow> if set_ignores_undefined eng then stored else None)"

text \<open>The primary key of a table: the keys that are present are pairwise different.\<close>

definition pk_distinct :: "('r \<Rightarrow> string option) \<Rightarrow> 'r list \<Rightarrow> bool" where
  "pk_distinct key rows = distinct (filter (\<lambda>k. k \<noteq> None) (map key rows))"

definition pk_ok :: "db \<Rightarrow> bool" where
  "pk_ok d = (pk_distinct (\<lambda>m. Some (m_id m)) (Meetings d)
              \<and> pk_distinct s_id (MeetingSections d)
              \<and> pk_distinct a_id (ActionItems d))"

subsection \<open>The handlers\<close>

text \<open>\<^verbatim>\<open>locals?.user\<close>.\<close>

definition caller :: "api_context \<Rightarrow> app_user option" where
  "caller ctx = (case locals ctx of None \<Rightarrow> None | Some l \<Rightarrow> user l)"

definition requireUser :: "api_context \<Rightarrow> error + app_user" where
  "requireUser ctx = (case caller ctx of None \<Rightarrow> Inl UNAUTHORIZED | Some u \<Rightarrow> Inr u)"

text \<open>The truthiness of a \<^verbatim>\<open>string | undefined\<close>: undefined and the empty string are falsy.\<close>

definition truthy :: "string option \<Rightarrow> bool" where
  "truthy v = (case v of None \<Rightarrow> False | Some s \<Rightarrow> s \<noteq> [])"

text \<open>\<^verbatim>\<open>and(eq(Meetings.id, id), eq(Meetings.userId, user.id))\<close>.\<close>

definition owned_by :: "string \<Rightarrow> app_user \<Rightarrow> meeting \<Rightarrow> bool" where
  "owned_by mid u m = (m_id m = mid \<and> m_userId m = user_id u)"

text \<open>
  \<^verbatim>\<open>createMeeting\<close>. \<open>uuid\<close> is what \<^verbatim>\<open>crypto.randomUUID()\<close> returns, \<open>now_c\<close> and \<open>now_u\<close>
  are the two readings of the clock.
\<close>

definition createMeeting ::
  "engine \<Rightarrow> api_context \<Rightarrow> createMeeting_input \<Rightarrow> string \<Rightarrow> timestamp \<Rightarrow> timestamp \<Rightarrow> db
     \<Rightarrow> (error + meeting option) \<times> db" where
  "createMeeting eng ctx input uuid now_c now_u d =
     (case requireUser ctx of
        Inl e \<Rightarrow> (Inl e, d)
      | Inr u \<Rightarrow>
          let row = \<lparr> m_id = (case cm_id input of Some i \<Rightarrow> i | None \<Rightarrow> uuid),
                      m_userId = user_id u,
                      m_title = cm_title input,
                      m_sourceType = cm_sourceType input,
                      m_sourceUrl = cm_sourceUrl input,
                      m_scheduledAt = cm_scheduledAt input,
                      m_durationMinutes = cm_durationMinutes input,
                      m_createdAt = now_c,
                      m_updatedAt = now_u \<rparr>
          in (case db_insert eng (\<lambda>m. Some (m_id m)) row (Meetings d) of
                None \<Rightarrow> (Inl STORAGE_ERROR, d)
              | Some rows \<Rightarrow> (Inr (first [row]), d\<lparr>Meetings := rows\<rparr>)))"

text \<open>
  \<^verbatim>\<open>updateMeeting\<close>. \<open>updateData\<close> holds the entries of the input, its id apart, that are
  not undefined.
\<close>

record meeting_patch =
  p_title :: "string option"
  p_sourceType :: "string option"
  p_sourceUrl :: "string option"
  p_scheduledAt :: "timestamp option"
  p_durationMinutes :: "int option"

definition updateData :: "updateMeeting_input \<Rightarrow> meeting_patch" where
  "updateData input =
     \<lparr> p_title = um_title input,
       p_sourceType = um_sourceType input,
       p_sourceUrl = um_sourceUrl input,
       p_scheduledAt = um_scheduledAt input,
       p_durationMinutes = um_durationMinutes input \<rparr>"

text \<open>\<^verbatim>\<open>Object.keys(updateData).length === 0\<close>.\<close>

definition no_keys :: "meeting_patch \<Rightarrow> bool" where
  "no_keys p = (p_title p = None \<and> p_sourceType p = None \<and> p_sourceUrl p = None
                \<and> p_scheduledAt p = None \<and> p_durationMinutes p = None)"

text \<open>\<^verbatim>\<open>set({...updateData, updatedAt: new Date()})\<close>: the keys of the patch, and the stamp.\<close>

definition meeting_set :: "meeting_patch \<Rightarrow> timestamp \<Rightarrow> meeting \<Rightarrow> meeting" where
  "meeting_set p now m =
     m\<lparr> m_title := (case p_title p of Some t \<Rightarrow> t | None \<Rightarrow> m_title m),
        m_sourceType := (case p_sourceType p of Some v \<Rightarrow> Some v | None \<Rightarrow> m_sourceType m),
        m_sourceUrl := (case p_sourceUrl p of Some v \<Rightarrow> Some v | None \<Rightarrow> m_sourceUrl m),
        m_scheduledAt := (case p_scheduledAt p of Some v \<Rightarrow> Some v | None \<Rightarrow> m_scheduledAt m),
        m_durationMinutes :=
          (case p_durationMinutes p of Some v \<Rightarrow> Some v | None \<Rightarrow> m_durationMinutes m),
        m_updatedAt := now \<rparr>"

definition updateMeeting ::
  "api_context \<Rightarrow> updateMeeting_input \<Rightarrow> timestamp \<Rightarrow> db \<Rightarrow> (error + meeting option) \<times> db" where
  "updateMeeting ctx input now d =
     (case requireUser ctx of
        Inl e \<Rightarrow> (Inl e, d)
      | Inr u \<Rightarrow>
          (case first (db_select1 (owned_by (um_id input) u) (Meetings d)) of
             None \<Rightarrow> (Inl NOT_FOUND, d)
           | Some existing \<Rightarrow>
               if no_keys (updateData input) then (Inr (Some existing), d)
               else
                 (case db_update (meeting_set (updateData input) now)
                         (owned_by (um_id input) u) (Meetings d) of
                    (rows, returned) \<Rightarrow> (Inr (first returned), d\<lparr>Meetings := rows\<rparr>))))"

definition listMeetings :: "api_context \<Rightarrow> db \<Rightarrow> (error + meeting list) \<times> db" where
  "listMeetings ctx d =
     (case requireUser ctx of
        Inl e \<Rightarrow> (Inl e, d)
      | Inr u \<Rightarrow> (Inr (filter (\<lambda>m. m_userId m = user_id u) (Meetings d)), d))"

text \<open>
  \<^verbatim>\<open>deleteMeeting\<close>. The handler deletes the meeting alone; a meeting is referenced by
  the sections and the action items that carry its id.
\<close>

definition meeting_referenced :: "db \<Rightarrow> meeting \<Rightarrow> bool" where
  "meeting_referenced d m =
     (m_id m \<in> set (map s_meetingId (MeetingSections d))
      \<or> m_id m \<in> set (map a_meetingId (ActionItems d)))"

definition deleteMeeting ::
  "engine \<Rightarrow> api_context \<Rightarrow> deleteMeeting_input \<Rightarrow> db \<Rightarrow> (error + meeting) \<times> db" where
  "deleteMeeting eng ctx input d =
     (case requireUser ctx of
        Inl e \<Rightarrow> (Inl e, d)
      | Inr u \<Rightarrow>
          (case db_delete_referenced eng (meeting_referenced d)
                  (owned_by (dm_id input) u) (Meetings d) of
             None \<Rightarrow> (Inl STORAGE_ERROR, d)
           | Some (rows, returned) \<Rightarrow>
               (case first returned of
                  None \<Rightarrow> (Inl NOT_FOUND, d\<lparr>Meetings := rows\<rparr>)
                | Some deleted \<Rightarrow> (Inr deleted, d\<lparr>Meetings := rows\<rparr>))))"

text \<open>
  \<^verbatim>\<open>saveSection\<close>. \<open>baseValues\<close> has no id; the same values are what the update sets and
  what the insert stores.
\<close>

record section_values =
  sv_meetingId :: string
  sv_type :: string
  sv_orderIndex :: int
  sv_content :: string
  sv_createdAt :: timestamp

definition section_baseValues :: "saveSection_input \<Rightarrow> timestamp \<Rightarrow> section_values" where
  "section_baseValues input now =
     \<lparr> sv_meetingId = ss_meetingId input,
       sv_type = ss_type input,
       sv_orderIndex = ss_orderIndex input,
       sv_content = ss_content input,
       sv_createdAt = now \<rparr>"

definition section_set :: "section_values \<Rightarrow> meeting_section \<Rightarrow> meeting_section" where
  "section_set v s =
     s\<lparr> s_meetingId := sv_meetingId v,
        s_type := sv_type v,
        s_orderIndex := sv_orderIndex v,
        s_content := sv_content v,
        s_createdAt := sv_createdAt v \<rparr>"

definition section_row :: "section_values \<Rightarrow> meeting_section" where
  "section_row v =
     \<lparr> s_id = None,
       s_meetingId = sv_meetingId v,
       s_type = sv_type v,
       s_orderIndex = sv_orderIndex v,
       s_content = sv_content v,
       s_createdAt = sv_createdAt v \<rparr>"

definition saveSection ::
  "engine \<Rightarrow> api_context \<Rightarrow> saveSection_input \<Rightarrow> timestamp \<Rightarrow> db
     \<Rightarrow> (error + meeting_section option) \<times> db" where
  "saveSection eng ctx input now d =
     (case requireUser ctx of
        Inl e \<Rightarrow> (Inl e, d)
      | Inr u \<Rightarrow>
          (case first (db_select1 (owned_by (ss_meetingId input) u) (Meetings d)) of
             None \<Rightarrow> (Inl NOT_FOUND, d)
           | Some meeting \<Rightarrow>
               let baseValues = section_baseValues input now in
               if truthy (ss_id input) then
                 (case first (db_select1 (\<lambda>s. s_id s = ss_id input) (MeetingSections d)) of
                    None \<Rightarrow> (Inl NOT_FOUND, d)
                  | Some existing \<Rightarrow>
                      if s_meetingId existing \<noteq> ss_meetingId input then (Inl NOT_FOUND, d)
                      else
                        (case db_update (section_set baseValues)
                                (\<lambda>s. s_id s = ss_id input) (MeetingSections d) of
                           (rows, returned) \<Rightarrow>
                             (Inr (first returned), d\<lparr>MeetingSections := rows\<rparr>)))
               else
                 (case db_insert eng s_id (section_row baseValues) (MeetingSections d) of
                    None \<Rightarrow> (Inl STORAGE_ERROR, d)
                  | Some rows \<Rightarrow>
                      (Inr (first [section_row baseValues]), d\<lparr>MeetingSections := rows\<rparr>))))"

definition deleteSection ::
  "api_context \<Rightarrow> deleteSection_input \<Rightarrow> db \<Rightarrow> (error + meeting_section) \<times> db" where
  "deleteSection ctx input d =
     (case requireUser ctx of
        Inl e \<Rightarrow> (Inl e, d)
      | Inr u \<Rightarrow>
          (case first (db_select1 (owned_by (ds_meetingId input) u) (Meetings d)) of
             None \<Rightarrow> (Inl NOT_FOUND, d)
           | Some meeting \<Rightarrow>
               (case db_delete
                       (\<lambda>s. s_id s = Some (ds_id input) \<and> s_meetingId s = ds_meetingId input)
                       (MeetingSections d) of
                  (rows, returned) \<Rightarrow>
                    (case first returned of
                       None \<Rightarrow> (Inl NOT_FOUND, d\<lparr>MeetingSections := rows\<rparr>)
                     | Some deleted \<Rightarrow> (Inr deleted, d\<lparr>MeetingSections := rows\<rparr>)))))"

text \<open>
  \<^verbatim>\<open>saveActionItem\<close>. \<open>baseValues\<close> has no id either; three of its values are undefined
  when the caller leaves them out.
\<close>

record item_values =
  iv_meetingId :: string
  iv_assignee :: "string option"
  iv_description :: string
  iv_dueDate :: "timestamp option"
  iv_status :: "string option"
  iv_createdAt :: timestamp
  iv_updatedAt :: timestamp

definition item_baseValues ::
  "saveActionItem_input \<Rightarrow> timestamp \<Rightarrow> timestamp \<Rightarrow> item_values" where
  "item_baseValues input now_c now_u =
     \<lparr> iv_meetingId = sa_meetingId input,
       iv_assignee = sa_assignee input,
       iv_description = sa_description input,
       iv_dueDate = sa_dueDate input,
       iv_status = sa_status input,
       iv_createdAt = now_c,
       iv_updatedAt = now_u \<rparr>"

definition item_set :: "engine \<Rightarrow> item_values \<Rightarrow> action_item \<Rightarrow> action_item" where
  "item_set eng v a =
     a\<lparr> a_meetingId := iv_meetingId v,
        a_assignee := set_column eng (iv_assignee v) (a_assignee a),
        a_description := iv_description v,
        a_dueDate := set_column eng (iv_dueDate v) (a_dueDate a),
        a_status := set_column eng (iv_status v) (a_status a),
        a_createdAt := iv_createdAt v,
        a_updatedAt := iv_updatedAt v \<rparr>"

definition item_row :: "item_values \<Rightarrow> action_item" where
  "item_row v =
     \<lparr> a_id = None,
       a_meetingId = iv_meetingId v,
       a_assignee = iv_assignee v,
       a_description = iv_description v,
       a_dueDate = iv_dueDate v,
       a_status = iv_status v,
       a_createdAt = iv_createdAt v,
       a_updatedAt = iv_updatedAt v \<rparr>"

definition saveActionItem ::
  "engine \<Rightarrow> api_context \<Rightarrow> saveActionItem_input \<Rightarrow> timestamp \<Rightarrow> timestamp \<Rightarrow> db
     \<Rightarrow> (error + action_item option) \<times> db" where
  "saveActionItem eng ctx input now_c now_u d =
     (case requireUser ctx of
        Inl e \<Rightarrow> (Inl e, d)
      | Inr u \<Rightarrow>
          (case first (db_select1 (owned_by (sa_meetingId input) u) (Meetings d)) of
             None \<Rightarrow> (Inl NOT_FOUND, d)
           | Some meeting \<Rightarrow>
               let baseValues = item_baseValues input now_c now_u in
               if truthy (sa_id input) then
                 (case first (db_select1 (\<lambda>a. a_id a = sa_id input) (ActionItems d)) of
                    None \<Rightarrow> (Inl NOT_FOUND, d)
                  | Some existing \<Rightarrow>
                      if a_meetingId existing \<noteq> sa_meetingId input then (Inl NOT_FOUND, d)
                      else
                        (case db_update (item_set eng baseValues)
                                (\<lambda>a. a_id a = sa_id input) (ActionItems d) of
                           (rows, returned) \<Rightarrow>
                             (Inr (first returned), d\<lparr>ActionItems := rows\<rparr>)))
               else
                 (case db_insert eng a_id (item_row baseValues) (ActionItems d) of
                    None \<Rightarrow> (Inl STORAGE_ERROR, d)
                  | Some rows \<Rightarrow>
                      (Inr (first [item_row baseValues]), d\<lparr>ActionItems := rows\<rparr>))))"

text \<open>
  \<^verbatim>\<open>listActionItems\<close>. Its input object is optional as a whole; \<open>requested\<close> is
  \<^verbatim>\<open>input?.meetingId\<close>, which both tests of the handler read for its truthiness.
\<close>

definition requested :: "listActionItems_input option \<Rightarrow> string option" where
  "requested input = (case input of None \<Rightarrow> None | Some i \<Rightarrow> la_meetingId i)"

definition allowedMeetingIds :: "app_user \<Rightarrow> db \<Rightarrow> string set" where
  "allowedMeetingIds u d = set (map m_id (filter (\<lambda>m. m_userId m = user_id u) (Meetings d)))"

definition matchesRequestedMeeting :: "string option \<Rightarrow> action_item \<Rightarrow> bool" where
  "matchesRequestedMeeting r item =
     (case r of
        None \<Rightarrow> True
      | Some mid \<Rightarrow> if truthy r then a_meetingId item = mid else True)"

definition unknownMeeting :: "string option \<Rightarrow> string set \<Rightarrow> bool" where
  "unknownMeeting r allowed =
     (case r of None \<Rightarrow> False | Some mid \<Rightarrow> truthy r \<and> mid \<notin> allowed)"

definition listActionItems ::
  "api_context \<Rightarrow> listActionItems_input option \<Rightarrow> db \<Rightarrow> (error + action_item list) \<times> db" where
  "listActionItems ctx input d =
     (case requireUser ctx of
        Inl e \<Rightarrow> (Inl e, d)
      | Inr u \<Rightarrow>
          if unknownMeeting (requested input) (allowedMeetingIds u d) then (Inl NOT_FOUND, d)
          else
            (Inr (filter (\<lambda>item. a_meetingId item \<in> allowedMeetingIds u d
                                 \<and> matchesRequestedMeeting (requested input) item)
                    (ActionItems d)), d))"

subsection \<open>The actions\<close>

text \<open>
  Each handler is registered with \<^verbatim>\<open>defineAction({input, handler})\<close>. The framework
  (\<^verbatim>\<open>astro:actions\<close>, not part of the repository) parses the input of a call with the
  schema first and calls the handler with what it parsed; input the schema rejects fails
  with \<open>BAD_REQUEST\<close> and the handler does not run. This is the order of the
  specification's data flow: input validation, then identity resolution.
\<close>

definition defineAction ::
  "('i \<Rightarrow> bool) \<Rightarrow> ('i \<Rightarrow> db \<Rightarrow> (error + 'r) \<times> db) \<Rightarrow> 'i \<Rightarrow> db \<Rightarrow> (error + 'r) \<times> db" where
  "defineAction schema handler input d =
     (if schema input then handler input d else (Inl BAD_REQUEST, d))"

definition server_createMeeting ::
  "engine \<Rightarrow> api_context \<Rightarrow> createMeeting_input \<Rightarrow> string \<Rightarrow> timestamp \<Rightarrow> timestamp \<Rightarrow> db
     \<Rightarrow> (error + meeting option) \<times> db" where
  "server_createMeeting eng ctx input uuid now_c now_u d =
     defineAction createMeeting_schema
       (\<lambda>i. createMeeting eng ctx i uuid now_c now_u) input d"

definition server_updateMeeting ::
  "api_context \<Rightarrow> updateMeeting_input \<Rightarrow> timestamp \<Rightarrow> db \<Rightarrow> (error + meeting option) \<times> db" where
  "server_updateMeeting ctx input now d =
     defineAction updateMeeting_schema (\<lambda>i. updateMeeting ctx i now) input d"

definition server_listMeetings ::
  "api_context \<Rightarrow> unit option \<Rightarrow> db \<Rightarrow> (error + meeting list) \<times> db" where
  "server_listMeetings ctx input d =
     defineAction listMeetings_schema (\<lambda>i. listMeetings ctx) input d"

definition server_deleteMeeting ::
  "engine \<Rightarrow> api_context \<Rightarrow> deleteMeeting_input \<Rightarrow> db \<Rightarrow> (error + meeting) \<times> db" where
  "server_deleteMeeting eng ctx input d =
     defineAction deleteMeeting_schema (\<lambda>i. deleteMeeting eng ctx i) input d"

definition server_saveSection ::
  "engine \<Rightarrow> api_context \<Rightarrow> saveSection_input \<Rightarrow> timestamp \<Rightarrow> db
     \<Rightarrow> (error + meeting_section option) \<times> db" where
  "server_saveSection eng ctx input now d =
     defineAction saveSection_schema (\<lambda>i. saveSection eng ctx i now) input d"

definition server_deleteSection ::
  "api_context \<Rightarrow> deleteSection_input \<Rightarrow> db \<Rightarrow> (error + meeting_section) \<times> db" where
  "server_deleteSection ctx input d =
     defineAction deleteSection_schema (\<lambda>i. deleteSection ctx i) input d"

definition server_saveActionItem ::
  "engine \<Rightarrow> api_context \<Rightarrow> saveActionItem_input \<Rightarrow> timestamp \<Rightarrow> timestamp \<Rightarrow> db
     \<Rightarrow> (error + action_item option) \<times> db" where
  "server_saveActionItem eng ctx input now_c now_u d =
     defineAction saveActionItem_schema
       (\<lambda>i. saveActionItem eng ctx i now_c now_u) input d"

definition server_listActionItems ::
  "api_context \<Rightarrow> listActionItems_input option \<Rightarrow> db \<Rightarrow> (error + action_item list) \<times> db" where
  "server_listActionItems ctx input d =
     defineAction listActionItems_schema (\<lambda>i. listActionItems ctx i) input d"

subsection \<open>Example data\<close>

text \<open>
  Two users and their meetings, with a section and an action item each, and two
  settings of the storage layer: \<open>lenient\<close> stores a row without a key and skips
  undefined columns, \<open>strict\<close> refuses the one and writes the other; both check
  references.
\<close>

definition alice :: app_user where
  "alice = \<lparr> user_id = ''A'' \<rparr>"

definition signed_in :: "app_user \<Rightarrow> api_context" where
  "signed_in u = \<lparr> locals = Some \<lparr> user = Some u \<rparr> \<rparr>"

definition anonymous :: api_context where
  "anonymous = \<lparr> locals = Some \<lparr> user = None \<rparr> \<rparr>"

definition lenient :: engine where
  "lenient = \<lparr> accepts_null_key = True, set_ignores_undefined = True,
                enforces_references = True \<rparr>"

definition strict :: engine where
  "strict = \<lparr> accepts_null_key = False, set_ignores_undefined = False,
               enforces_references = True \<rparr>"

definition standup :: meeting where
  "standup = \<lparr> m_id = ''m1'', m_userId = ''A'', m_title = ''Standup'',
                m_sourceType = Some ''upload'', m_sourceUrl = None, m_scheduledAt = None,
                m_durationMinutes = Some 15, m_createdAt = 1, m_updatedAt = 1 \<rparr>"

definition retro :: meeting where
  "retro = \<lparr> m_id = ''m2'', m_userId = ''B'', m_title = ''Retro'',
              m_sourceType = None, m_sourceUrl = None, m_scheduledAt = None,
              m_durationMinutes = None, m_createdAt = 2, m_updatedAt = 2 \<rparr>"

definition planning :: meeting where
  "planning = \<lparr> m_id = ''m3'', m_userId = ''A'', m_title = ''Planning'',
                 m_sourceType = None, m_sourceUrl = None, m_scheduledAt = Some 70,
                 m_durationMinutes = None, m_createdAt = 2, m_updatedAt = 2 \<rparr>"

definition minutes :: meeting_section where
  "minutes = \<lparr> s_id = Some ''s1'', s_meetingId = ''m1'', s_type = ''notes'',
              s_orderIndex = 1, s_content = ''hi'', s_createdAt = 3 \<rparr>"

definition agenda :: meeting_section where
  "agenda = \<lparr> s_id = Some ''s2'', s_meetingId = ''m2'', s_type = ''summary'',
               s_orderIndex = 1, s_content = ''went well'', s_createdAt = 4 \<rparr>"

definition todo :: action_item where
  "todo = \<lparr> a_id = Some ''a1'', a_meetingId = ''m1'', a_assignee = Some ''carol'',
             a_description = ''send the minutes'', a_dueDate = Some 50,
             a_status = Some ''open'', a_createdAt = 5, a_updatedAt = 5 \<rparr>"

definition followup :: action_item where
  "followup = \<lparr> a_id = Some ''a2'', a_meetingId = ''m2'', a_assignee = None,
                 a_description = ''book a room'', a_dueDate = None,
                 a_status = None, a_createdAt = 6, a_updatedAt = 6 \<rparr>"

definition invite :: action_item where
  "invite = \<lparr> a_id = Some ''a3'', a_meetingId = ''m3'', a_assignee = None,
               a_description = ''invite the team'', a_dueDate = None,
               a_status = None, a_createdAt = 6, a_updatedAt = 6 \<rparr>"

definition store :: db where
  "store = \<lparr> Meetings = [standup, retro, planning],
              MeetingSections = [minutes, agenda], ActionItems = [todo, followup, invite] \<rparr>"

text \<open>A section and an action item whose key is the empty string.\<close>

definition blank_section :: meeting_section where
  "blank_section = \<lparr> s_id = Some '''', s_meetingId = ''m2'', s_type = ''notes'',
                      s_orderIndex = 2, s_content = ''draft'', s_createdAt = 7 \<rparr>"

definition blank_item :: action_item where
  "blank_item = \<lparr> a_id = Some '''', a_meetingId = ''m1'', a_assignee = Some ''dave'',
                   a_description = ''order lunch'', a_dueDate = None,
                   a_status = Some ''open'', a_createdAt = 8, a_updatedAt = 8 \<rparr>"

definition blank_store :: db where
  "blank_store = \<lparr> Meetings = [standup, retro], MeetingSections = [blank_section],
                    ActionItems = [blank_item] \<rparr>"

text \<open>Inputs, each within its schema.\<close>

definition create_standup :: createMeeting_input where
  "create_standup = \<lparr> cm_id = None, cm_title = ''Standup'', cm_sourceType = None,
                       cm_sourceUrl = None, cm_scheduledAt = None, cm_durationMinutes = None \<rparr>"

definition touch :: updateMeeting_input where
  "touch = \<lparr> um_id = ''m1'', um_title = None, um_sourceType = None, um_sourceUrl = None,
              um_scheduledAt = None, um_durationMinutes = None \<rparr>"

definition retitle :: updateMeeting_input where
  "retitle = \<lparr> um_id = ''m1'', um_title = Some ''Weekly'', um_sourceType = None,
                um_sourceUrl = None, um_scheduledAt = Some 90, um_durationMinutes = None \<rparr>"

definition add_notes :: saveSection_input where
  "add_notes = \<lparr> ss_id = None, ss_meetingId = ''m1'', ss_type = ''notes'',
                  ss_orderIndex = 1, ss_content = ''hi'' \<rparr>"

definition edit_notes :: saveSection_input where
  "edit_notes = \<lparr> ss_id = Some ''s1'', ss_meetingId = ''m1'', ss_type = ''notes'',
                   ss_orderIndex = 1, ss_content = ''bye'' \<rparr>"

definition take_agenda :: saveSection_input where
  "take_agenda = \<lparr> ss_id = Some ''s2'', ss_meetingId = ''m1'', ss_type = ''notes'',
                    ss_orderIndex = 1, ss_content = ''mine'' \<rparr>"

definition take_blank :: saveSection_input where
  "take_blank = \<lparr> ss_id = Some '''', ss_meetingId = ''m1'', ss_type = ''notes'',
                   ss_orderIndex = 1, ss_content = ''mine'' \<rparr>"

definition drop_notes :: deleteSection_input where
  "drop_notes = \<lparr> ds_id = ''s1'', ds_meetingId = ''m1'' \<rparr>"

definition close_todo :: saveActionItem_input where
  "close_todo = \<lparr> sa_id = Some ''a1'', sa_meetingId = ''m1'', sa_assignee = None,
                   sa_description = ''minutes sent'', sa_dueDate = None,
                   sa_status = Some ''done'' \<rparr>"

definition close_blank :: saveActionItem_input where
  "close_blank = \<lparr> sa_id = Some '''', sa_meetingId = ''m1'', sa_assignee = None,
                    sa_description = ''lunch ordered'', sa_dueDate = None,
                    sa_status = Some ''done'' \<rparr>"

text \<open>A meeting whose id is the empty string, the input that creates it, and an item of it.\<close>

definition create_blank :: createMeeting_input where
  "create_blank = \<lparr> cm_id = Some '''', cm_title = ''Untitled'', cm_sourceType = None,
                     cm_sourceUrl = None, cm_scheduledAt = None, cm_durationMinutes = None \<rparr>"

definition unnamed :: meeting where
  "unnamed = \<lparr> m_id = '''', m_userId = ''A'', m_title = ''Untitled'',
                m_sourceType = None, m_sourceUrl = None, m_scheduledAt = None,
                m_durationMinutes = None, m_createdAt = 9, m_updatedAt = 9 \<rparr>"

definition stray :: action_item where
  "stray = \<lparr> a_id = Some ''a4'', a_meetingId = '''', a_assignee = None,
              a_description = ''name the meeting'', a_dueDate = None,
              a_status = None, a_createdAt = 9, a_updatedAt = 9 \<rparr>"

definition unnamed_store :: db where
  "unnamed_store = \<lparr> Meetings = [standup, retro, planning, unnamed],
                      MeetingSections = [minutes, agenda],
                      ActionItems = [todo, followup, invite, stray] \<rparr>"

subsection \<open>The storage layer: selecting, updating and deleting by primary key\<close>

lemma first_select1: "first (db_select1 P rows) = first (filter P rows)"
  by (cases "filter P rows") (simp_all add: first_def db_select1_def)

lemma first_Nil: "first [] = None"
  by (simp add: first_def)

lemma first_Cons: "first (r # rows) = Some r"
  by (simp add: first_def)

lemma pk_distinct_Cons:
  "pk_distinct key (r # rows) =
     (pk_distinct key rows \<and> (key r = None \<or> key r \<notin> set (map key rows)))"
  by (auto simp: pk_distinct_def)

lemma pk_filter_key:
  "pk_distinct key rows \<Longrightarrow> r \<in> set rows \<Longrightarrow> key r = Some k
     \<Longrightarrow> filter (\<lambda>x. key x = Some k) rows = [r]"
proof (induction rows)
  case Nil
  then show ?case by simp
next
  case (Cons x xs)
  show ?case
  proof (cases "x = r")
    case True
    with Cons.prems have "Some k \<notin> set (map key xs)"
      by (auto simp: pk_distinct_Cons)
    then have "filter (\<lambda>x. key x = Some k) xs = []"
      by (force simp: filter_empty_conv)
    with True Cons.prems show ?thesis by simp
  next
    case False
    with Cons.prems have r: "r \<in> set xs" by simp
    with Cons.prems have "key x \<noteq> Some k"
      by (force simp: pk_distinct_Cons)
    moreover have "filter (\<lambda>x. key x = Some k) xs = [r]"
      using Cons.IH Cons.prems r by (simp add: pk_distinct_Cons)
    ultimately show ?thesis by simp
  qed
qed

lemma owned_by_filter:
  assumes "pk_distinct (\<lambda>m. Some (m_id m)) rows" "m \<in> set rows"
  shows "filter (owned_by (m_id m) u) rows = (if m_userId m = user_id u then [m] else [])"
proof -
  have k: "filter (\<lambda>x. Some (m_id x) = Some (m_id m)) rows = [m]"
    using assms by (rule pk_filter_key) simp
  have "filter (owned_by (m_id m) u) rows
          = filter (\<lambda>x. m_userId x = user_id u) (filter (\<lambda>x. Some (m_id x) = Some (m_id m)) rows)"
    by (simp add: owned_by_def fun_eq_iff conj_commute cong: filter_cong)
  also have "\<dots> = filter (\<lambda>x. m_userId x = user_id u) [m]"
    by (simp only: k)
  also have "\<dots> = (if m_userId m = user_id u then [m] else [])"
    by simp
  finally show ?thesis .
qed

lemma db_update_none: "filter P rows = [] \<Longrightarrow> db_update f P rows = (rows, [])"
  by (auto simp: db_update_def filter_empty_conv intro: map_idI)

lemma db_delete_none: "filter P rows = [] \<Longrightarrow> db_delete P rows = (rows, [])"
  by (auto simp: db_delete_def filter_empty_conv)

lemma db_update_single:
  assumes "filter P rows = [r]"
  shows "db_update f P rows = (map (\<lambda>x. if x = r then f r else x) rows, [f r])"
proof -
  have "P x \<longleftrightarrow> x = r" if "x \<in> set rows" for x
  proof
    assume "P x"
    with that have "x \<in> set (filter P rows)" by simp
    with assms show "x = r" by simp
  next
    assume "x = r"
    moreover have "r \<in> set (filter P rows)" using assms by simp
    ultimately show "P x" by simp
  qed
  then have "map (\<lambda>x. if P x then f x else x) rows = map (\<lambda>x. if x = r then f r else x) rows"
    by (intro map_cong) auto
  with assms show ?thesis by (simp add: db_update_def)
qed

lemma map_replace_same: "map (\<lambda>x. if x = r then r else x) rows = rows"
  by (induction rows) auto

text \<open>The caller, and the meeting a handler loads for it.\<close>

lemma requireUser_None: "caller ctx = None \<Longrightarrow> requireUser ctx = Inl UNAUTHORIZED"
  by (simp add: requireUser_def)

lemma requireUser_Some: "caller ctx = Some u \<Longrightarrow> requireUser ctx = Inr u"
  by (simp add: requireUser_def)

lemma not_owned_select:
  assumes "pk_ok d" "m \<in> set (Meetings d)" "m_userId m \<noteq> user_id u"
  shows "filter (owned_by (m_id m) u) (Meetings d) = []"
  using assms by (simp add: pk_ok_def owned_by_filter)

lemma owned_select:
  assumes "pk_ok d" "m \<in> set (Meetings d)" "m_userId m = user_id u"
  shows "filter (owned_by (m_id m) u) (Meetings d) = [m]"
  using assms by (simp add: pk_ok_def owned_by_filter)

text \<open>Every handler resolves the caller before anything else.\<close>

lemma handlers_require_user:
  assumes "caller ctx = None"
  shows "createMeeting eng ctx ci uuid now_c now_u d = (Inl UNAUTHORIZED, d)
       \<and> updateMeeting ctx ui now d = (Inl UNAUTHORIZED, d)
       \<and> listMeetings ctx d = (Inl UNAUTHORIZED, d)
       \<and> deleteMeeting eng ctx di d = (Inl UNAUTHORIZED, d)
       \<and> saveSection eng ctx si now d = (Inl UNAUTHORIZED, d)
       \<and> deleteSection ctx dsi d = (Inl UNAUTHORIZED, d)
       \<and> saveActionItem eng ctx ai now_c now_u d = (Inl UNAUTHORIZED, d)
       \<and> listActionItems ctx li d = (Inl UNAUTHORIZED, d)"
  using requireUser_None [OF assms]
  by (simp add: createMeeting_def updateMeeting_def listMeetings_def deleteMeeting_def
      saveSection_def deleteSection_def saveActionItem_def listActionItems_def)

text \<open>
  The set \<^verbatim>\<open>listActionItems\<close> computes holds the ids of the stored meetings whose
  \<open>userId\<close> is the caller's id, and no other.
\<close>

lemma allowedMeetingIds_iff:
  "mid \<in> allowedMeetingIds u d
     \<longleftrightarrow> (\<exists>m\<in>set (Meetings d). m_userId m = user_id u \<and> m_id m = mid)"
  by (auto simp: allowedMeetingIds_def)

lemma listActionItems_by_allowed:
  assumes auth: "caller ctx = Some u"
  shows "listActionItems ctx None d
           = (Inr (filter (\<lambda>i. a_meetingId i \<in> allowedMeetingIds u d) (ActionItems d)), d)
       \<and> listActionItems ctx (Some \<lparr>la_meetingId = None\<rparr>) d
           = (Inr (filter (\<lambda>i. a_meetingId i \<in> allowedMeetingIds u d) (ActionItems d)), d)
       \<and> (mid \<noteq> [] \<and> mid \<in> allowedMeetingIds u d \<longrightarrow>
            listActionItems ctx (Some \<lparr>la_meetingId = Some mid\<rparr>) d
              = (Inr (filter (\<lambda>i. a_meetingId i = mid) (ActionItems d)), d))
       \<and> (mid \<noteq> [] \<and> mid \<notin> allowedMeetingIds u d \<longrightarrow>
            listActionItems ctx (Some \<lparr>la_meetingId = Some mid\<rparr>) d = (Inl NOT_FOUND, d))"
proof -
  note u = requireUser_Some [OF auth]
  have none: "listActionItems ctx None d
           = (Inr (filter (\<lambda>i. a_meetingId i \<in> allowedMeetingIds u d) (ActionItems d)), d)"
    by (simp add: listActionItems_def u requested_def unknownMeeting_def
        matchesRequestedMeeting_def)
  have undef: "listActionItems ctx (Some \<lparr>la_meetingId = None\<rparr>) d
           = (Inr (filter (\<lambda>i. a_meetingId i \<in> allowedMeetingIds u d) (ActionItems d)), d)"
    by (simp add: listActionItems_def u requested_def unknownMeeting_def
        matchesRequestedMeeting_def)
  have own: "listActionItems ctx (Some \<lparr>la_meetingId = Some mid\<rparr>) d
              = (Inr (filter (\<lambda>i. a_meetingId i = mid) (ActionItems d)), d)"
    if "mid \<noteq> []" "mid \<in> allowedMeetingIds u d"
  proof -
    have "filter (\<lambda>i. a_meetingId i \<in> allowedMeetingIds u d \<and> a_meetingId i = mid) (ActionItems d)
            = filter (\<lambda>i. a_meetingId i = mid) (ActionItems d)"
      using that by (intro filter_cong) auto
    with that show ?thesis
      by (simp add: listActionItems_def u requested_def unknownMeeting_def
          matchesRequestedMeeting_def truthy_def)
  qed
  have other: "listActionItems ctx (Some \<lparr>la_meetingId = Some mid\<rparr>) d = (Inl NOT_FOUND, d)"
    if "mid \<noteq> []" "mid \<notin> allowedMeetingIds u d"
    using that by (simp add: listActionItems_def u requested_def unknownMeeting_def truthy_def)
  from none undef own other show ?thesis by blast
qed

lemma listActionItems_empty_by_allowed:
  "listActionItems ctx (Some \<lparr>la_meetingId = Some ''''\<rparr>) d = listActionItems ctx None d
   \<and> fst (listActionItems ctx (Some \<lparr>la_meetingId = Some ''''\<rparr>) d) \<noteq> Inl NOT_FOUND
   \<and> (caller ctx = Some u \<longrightarrow>
        listActionItems ctx (Some \<lparr>la_meetingId = Some ''''\<rparr>) d
          = (Inr (filter (\<lambda>i. a_meetingId i \<in> allowedMeetingIds u d) (ActionItems d)), d))"
  by (cases "caller ctx")
     (simp_all add: listActionItems_def requireUser_def requested_def unknownMeeting_def
        matchesRequestedMeeting_def truthy_def)

subsection \<open>The handlers keep the primary keys\<close>

text \<open>
  Every handler leaves the keys of the three tables pairwise different, so \<open>pk_ok\<close> holds
  of every state the handlers reach from one it holds of.
\<close>

lemma pk_distinct_snoc:
  "pk_distinct key (rows @ [r]) =
     (pk_distinct key rows \<and> (key r = None \<or> key r \<notin> set (map key rows)))"
  by (auto simp: pk_distinct_def)

lemma pk_distinct_insert:
  "db_insert eng key row rows = Some rows' \<Longrightarrow> pk_distinct key rows \<Longrightarrow> pk_distinct key rows'"
  by (auto simp: db_insert_def pk_distinct_snoc split: option.splits if_splits)

lemma pk_distinct_update:
  assumes "\<And>r. key (f r) = key r" and "pk_distinct key rows"
  shows "pk_distinct key (fst (db_update f P rows))"
proof -
  have "map key (fst (db_update f P rows)) = map key rows"
    by (induction rows) (simp_all add: db_update_def assms(1))
  with assms(2) show ?thesis by (simp only: pk_distinct_def)
qed

lemma pk_distinct_delete:
  "pk_distinct key rows \<Longrightarrow> pk_distinct key (fst (db_delete P rows))"
  by (induction rows) (auto simp: db_delete_def pk_distinct_Cons)

lemma pk_ok_createMeeting:
  "pk_ok d \<Longrightarrow> pk_ok (snd (createMeeting eng ctx input uuid now_c now_u d))"
  by (auto simp: createMeeting_def pk_ok_def Let_def split: sum.splits option.splits
      dest: pk_distinct_insert)

lemma pk_ok_updateMeeting: "pk_ok d \<Longrightarrow> pk_ok (snd (updateMeeting ctx input now d))"
proof -
  assume ok: "pk_ok d"
  have "pk_distinct (\<lambda>m. Some (m_id m))
          (fst (db_update (meeting_set p now) P (Meetings d)))" for p P
    using ok by (intro pk_distinct_update) (simp_all add: meeting_set_def pk_ok_def)
  with ok show ?thesis
    by (auto simp: updateMeeting_def pk_ok_def split_beta split: sum.splits option.splits)
qed

lemma pk_ok_deleteMeeting: "pk_ok d \<Longrightarrow> pk_ok (snd (deleteMeeting eng ctx input d))"
proof -
  assume ok: "pk_ok d"
  have "pk_distinct (\<lambda>m. Some (m_id m)) (fst (db_delete P (Meetings d)))" for P
    using ok by (intro pk_distinct_delete) (simp add: pk_ok_def)
  with ok show ?thesis
    by (auto simp: deleteMeeting_def db_delete_referenced_def pk_ok_def split_beta
        split: sum.splits option.splits if_splits)
qed

lemma pk_ok_saveSection: "pk_ok d \<Longrightarrow> pk_ok (snd (saveSection eng ctx input now d))"
proof -
  assume ok: "pk_ok d"
  have "pk_distinct s_id (fst (db_update (section_set v) P (MeetingSections d)))" for v P
    using ok by (intro pk_distinct_update) (simp_all add: section_set_def pk_ok_def)
  with ok show ?thesis
    by (auto simp: saveSection_def pk_ok_def Let_def split_beta
        split: sum.splits option.splits dest: pk_distinct_insert)
qed

lemma pk_ok_deleteSection: "pk_ok d \<Longrightarrow> pk_ok (snd (deleteSection ctx input d))"
proof -
  assume ok: "pk_ok d"
  have "pk_distinct s_id (fst (db_delete P (MeetingSections d)))" for P
    using ok by (intro pk_distinct_delete) (simp add: pk_ok_def)
  with ok show ?thesis
    by (auto simp: deleteSection_def pk_ok_def split_beta split: sum.splits option.splits)
qed

lemma pk_ok_saveActionItem:
  "pk_ok d \<Longrightarrow> pk_ok (snd (saveActionItem eng ctx input now_c now_u d))"
proof -
  assume ok: "pk_ok d"
  have "pk_distinct a_id (fst (db_update (item_set eng v) P (ActionItems d)))" for v P
    using ok by (intro pk_distinct_update) (simp_all add: item_set_def pk_ok_def)
  with ok show ?thesis
    by (auto simp: saveActionItem_def pk_ok_def Let_def split_beta
        split: sum.splits option.splits dest: pk_distinct_insert)
qed

lemma pk_ok_lists:
  "snd (listMeetings ctx d) = d" "snd (listActionItems ctx input d) = d"
  by (simp_all add: listMeetings_def listActionItems_def split: sum.splits)

text \<open>
  \<^verbatim>\<open>createMeeting\<close> is the one handler that gives its row an id: the caller's, or a fresh
  \<^verbatim>\<open>crypto.randomUUID()\<close>.
\<close>

lemma createMeeting_generates_id:
  assumes "caller ctx = Some u" and "cm_id input = None"
    and "uuid \<notin> set (map m_id (Meetings d))"
  shows "\<exists>m. createMeeting eng ctx input uuid now_c now_u d
               = (Inr (Some m), d\<lparr>Meetings := Meetings d @ [m]\<rparr>)
             \<and> m_id m = uuid \<and> m_userId m = user_id u"
proof -
  have "Some uuid \<notin> (\<lambda>m. Some (m_id m)) ` set (Meetings d)"
    using assms(3) by auto
  then show ?thesis
    by (simp add: createMeeting_def requireUser_Some [OF assms(1)] assms(2) db_insert_def
        first_Cons Let_def)
qed

subsection \<open>Facts about the example data\<close>

lemma pk_ok_store: "pk_ok store"
  by (simp add: pk_ok_def pk_distinct_def store_def standup_def retro_def planning_def
      minutes_def agenda_def todo_def followup_def invite_def)

lemma pk_ok_blank_store: "pk_ok blank_store"
  by (simp add: pk_ok_def pk_distinct_def blank_store_def standup_def retro_def
      blank_section_def blank_item_def)

lemma caller_signed_in: "caller (signed_in u) = Some u"
  by (simp add: caller_def signed_in_def)

lemma caller_anonymous: "caller anonymous = None"
  by (simp add: caller_def anonymous_def)

lemma owned_alice:
  "(\<exists>m\<in>set (Meetings store). m_userId m = user_id alice \<and> m_id m = mid)
     \<longleftrightarrow> mid = ''m1'' \<or> mid = ''m3''"
  by (auto simp: store_def standup_def retro_def planning_def alice_def)

lemma items_alice:
  "filter (\<lambda>i. \<exists>m\<in>set (Meetings store). m_userId m = user_id alice \<and> m_id m = a_meetingId i)
     (ActionItems store) = [todo, invite]"
  "filter (\<lambda>i. a_meetingId i = ''m3'') (ActionItems store) = [invite]"
  by (simp_all add: owned_alice) (simp_all add: store_def todo_def followup_def invite_def)

lemma items_alice_unnamed:
  "filter (\<lambda>i. \<exists>m\<in>set (Meetings unnamed_store).
                 m_userId m = user_id alice \<and> m_id m = a_meetingId i)
     (ActionItems unnamed_store) = [todo, invite, stray]"
  by (simp add: unnamed_store_def standup_def retro_def planning_def unnamed_def alice_def
      todo_def followup_def invite_def stray_def)

text \<open>
  Deleting a meeting that still has a section and an item: refused where references are
  checked; where they are not, the meeting goes and its section and item stay.
\<close>

lemma deleteMeeting_with_children:
  "deleteMeeting lenient (signed_in alice) \<lparr> dm_id = ''m1'' \<rparr> store
     = (Inl STORAGE_ERROR, store)"
  "deleteMeeting (lenient\<lparr>enforces_references := False\<rparr>) (signed_in alice)
       \<lparr> dm_id = ''m1'' \<rparr> store
     = (Inr standup, store\<lparr>Meetings := [retro, planning]\<rparr>)"
  by (simp_all add: deleteMeeting_def db_delete_referenced_def db_delete_def
      meeting_referenced_def requireUser_def caller_signed_in first_def owned_by_def
      lenient_def store_def standup_def retro_def planning_def alice_def minutes_def
      agenda_def todo_def followup_def invite_def)

lemma standup_in_store: "standup \<in> set (Meetings store)"
  by (simp add: store_def)

lemma standup_of_alice: "m_userId standup = user_id alice"
  by (simp add: standup_def alice_def)

lemma minutes_in_store: "minutes \<in> set (MeetingSections store)"
  by (simp add: store_def)

lemma agenda_in_store: "agenda \<in> set (MeetingSections store)"
  by (simp add: store_def)

lemma todo_in_store: "todo \<in> set (ActionItems store)"
  by (simp add: store_def)

section \<open>The claims\<close>

subsection \<open>C1: another user's meeting\<close>

text \<open>
  C1. For a signed-in caller and a stored meeting whose \<open>userId\<close> is not the caller's id,
  \<^verbatim>\<open>updateMeeting\<close>, \<^verbatim>\<open>deleteMeeting\<close>, \<^verbatim>\<open>saveSection\<close>, \<^verbatim>\<open>deleteSection\<close> and
  \<^verbatim>\<open>saveActionItem\<close>, called with that meeting's id, all fail with \<open>NOT_FOUND\<close>. The
  result is the error alone, so it carries nothing of the meeting, and the tables are as
  they were. The id of a meeting is its primary key (\<open>pk_ok\<close>).
\<close>

theorem other_users_meeting_is_NOT_FOUND:
  assumes auth: "caller ctx = Some u"
    and pk: "pk_ok d"
    and m: "m \<in> set (Meetings d)"
    and other: "m_userId m \<noteq> user_id u"
  shows "updateMeeting ctx (ui\<lparr>um_id := m_id m\<rparr>) now d = (Inl NOT_FOUND, d)
       \<and> deleteMeeting eng ctx (di\<lparr>dm_id := m_id m\<rparr>) d = (Inl NOT_FOUND, d)
       \<and> saveSection eng ctx (si\<lparr>ss_meetingId := m_id m\<rparr>) now d = (Inl NOT_FOUND, d)
       \<and> deleteSection ctx (dsi\<lparr>ds_meetingId := m_id m\<rparr>) d = (Inl NOT_FOUND, d)
       \<and> saveActionItem eng ctx (ai\<lparr>sa_meetingId := m_id m\<rparr>) now_c now_u d
           = (Inl NOT_FOUND, d)"
proof -
  note u = requireUser_Some [OF auth]
  note none = not_owned_select [OF pk m other]
  have "updateMeeting ctx (ui\<lparr>um_id := m_id m\<rparr>) now d = (Inl NOT_FOUND, d)"
    by (simp add: updateMeeting_def u first_select1 none first_Nil)
  moreover have "deleteMeeting eng ctx (di\<lparr>dm_id := m_id m\<rparr>) d = (Inl NOT_FOUND, d)"
    by (simp add: deleteMeeting_def db_delete_referenced_def u none
        db_delete_none [OF none] first_Nil)
  moreover have "saveSection eng ctx (si\<lparr>ss_meetingId := m_id m\<rparr>) now d = (Inl NOT_FOUND, d)"
    by (simp add: saveSection_def u first_select1 none first_Nil)
  moreover have "deleteSection ctx (dsi\<lparr>ds_meetingId := m_id m\<rparr>) d = (Inl NOT_FOUND, d)"
    by (simp add: deleteSection_def u first_select1 none first_Nil)
  moreover have "saveActionItem eng ctx (ai\<lparr>sa_meetingId := m_id m\<rparr>) now_c now_u d
           = (Inl NOT_FOUND, d)"
    by (simp add: saveActionItem_def u first_select1 none first_Nil)
  ultimately show ?thesis by simp
qed

text \<open>C1, at Alice asking for Bob's meeting \<open>m2\<close>.\<close>

theorem other_users_meeting_is_NOT_FOUND_witness:
  "caller (signed_in alice) = Some alice \<and> pk_ok store
   \<and> retro \<in> set (Meetings store) \<and> m_userId retro \<noteq> user_id alice
   \<and> updateMeeting (signed_in alice) (retitle\<lparr>um_id := m_id retro\<rparr>) 9 store
       = (Inl NOT_FOUND, store)
   \<and> deleteMeeting lenient (signed_in alice) \<lparr> dm_id = m_id retro \<rparr> store = (Inl NOT_FOUND, store)
   \<and> saveSection lenient (signed_in alice) (add_notes\<lparr>ss_meetingId := m_id retro\<rparr>) 9 store
       = (Inl NOT_FOUND, store)
   \<and> deleteSection (signed_in alice) \<lparr> ds_id = ''s2'', ds_meetingId = m_id retro \<rparr> store
       = (Inl NOT_FOUND, store)
   \<and> saveActionItem lenient (signed_in alice) (close_todo\<lparr>sa_meetingId := m_id retro\<rparr>) 9 9 store
       = (Inl NOT_FOUND, store)"
proof -
  have m: "retro \<in> set (Meetings store)" by (simp add: store_def)
  have other: "m_userId retro \<noteq> user_id alice" by (simp add: retro_def alice_def)
  from other_users_meeting_is_NOT_FOUND [OF caller_signed_in pk_ok_store m other,
      where ui = retitle and now = 9 and di = "\<lparr> dm_id = ''m1'' \<rparr>" and eng = lenient
        and si = add_notes and dsi = "\<lparr> ds_id = ''s2'', ds_meetingId = ''m1'' \<rparr>"
        and ai = close_todo and now_c = 9 and now_u = 9]
  show ?thesis using m other by (simp add: caller_signed_in pk_ok_store)
qed

subsection \<open>C2: listing action items\<close>

text \<open>
  C2, as stated, says that every supplied \<open>meetingId\<close> that is not among the caller's
  meetings is answered with \<open>NOT_FOUND\<close>. The empty string is a \<open>meetingId\<close> the schema
  admits; no stored meeting has it as its id, and the call returns the items of all of
  Alice's meetings.
\<close>

theorem listActionItems_rejects_unowned_counterexample:
  "caller (signed_in alice) = Some alice
   \<and> Meetings store = [standup, retro, planning]
   \<and> m_id standup = ''m1'' \<and> m_id retro = ''m2'' \<and> m_id planning = ''m3''
   \<and> listActionItems (signed_in alice) (Some \<lparr> la_meetingId = Some '''' \<rparr>) store
       = (Inr [todo, invite], store)
   \<and> fst (listActionItems (signed_in alice) (Some \<lparr> la_meetingId = Some '''' \<rparr>) store)
       \<noteq> Inl NOT_FOUND"
proof -
  have "listActionItems (signed_in alice) (Some \<lparr> la_meetingId = Some '''' \<rparr>) store
          = (Inr [todo, invite], store)"
    by (simp add: caller_signed_in listActionItems_def requireUser_def requested_def
        unknownMeeting_def matchesRequestedMeeting_def truthy_def allowedMeetingIds_iff
        items_alice)
  then show ?thesis
    by (simp add: caller_signed_in) (simp add: store_def standup_def retro_def planning_def)
qed

text \<open>
  C2, amended. For a signed-in caller, \<^verbatim>\<open>listActionItems\<close> with no input or no
  \<open>meetingId\<close> returns exactly the action items whose \<open>meetingId\<close> is the id of a stored
  meeting whose \<open>userId\<close> is the caller's id, in table order. With a non-empty
  \<open>meetingId\<close> it returns exactly the items of that meeting when it is the id of such a
  meeting, and fails with \<open>NOT_FOUND\<close> when it is not.
\<close>

theorem listActionItems_of_owner:
  assumes auth: "caller ctx = Some u"
  shows "listActionItems ctx None d
           = (Inr (filter (\<lambda>i. \<exists>m\<in>set (Meetings d).
                                  m_userId m = user_id u \<and> m_id m = a_meetingId i)
                     (ActionItems d)), d)
       \<and> listActionItems ctx (Some \<lparr>la_meetingId = None\<rparr>) d
           = (Inr (filter (\<lambda>i. \<exists>m\<in>set (Meetings d).
                                  m_userId m = user_id u \<and> m_id m = a_meetingId i)
                     (ActionItems d)), d)
       \<and> (mid \<noteq> [] \<and> (\<exists>m\<in>set (Meetings d). m_userId m = user_id u \<and> m_id m = mid) \<longrightarrow>
            listActionItems ctx (Some \<lparr>la_meetingId = Some mid\<rparr>) d
              = (Inr (filter (\<lambda>i. a_meetingId i = mid) (ActionItems d)), d))
       \<and> (mid \<noteq> [] \<and> \<not> (\<exists>m\<in>set (Meetings d). m_userId m = user_id u \<and> m_id m = mid) \<longrightarrow>
            listActionItems ctx (Some \<lparr>la_meetingId = Some mid\<rparr>) d = (Inl NOT_FOUND, d))"
  using listActionItems_by_allowed [OF auth, where d = d and mid = mid]
  unfolding allowedMeetingIds_iff .

text \<open>C2, amended, at Alice: all her items, those of \<open>m3\<close>, and Bob's \<open>m2\<close> refused.\<close>

theorem listActionItems_of_owner_witness:
  "caller (signed_in alice) = Some alice
   \<and> listActionItems (signed_in alice) None store = (Inr [todo, invite], store)
   \<and> listActionItems (signed_in alice) (Some \<lparr> la_meetingId = None \<rparr>) store
       = (Inr [todo, invite], store)
   \<and> ''m3'' \<noteq> []
   \<and> (\<exists>m\<in>set (Meetings store). m_userId m = user_id alice \<and> m_id m = ''m3'')
   \<and> listActionItems (signed_in alice) (Some \<lparr> la_meetingId = Some ''m3'' \<rparr>) store
       = (Inr [invite], store)
   \<and> ''m2'' \<noteq> []
   \<and> \<not> (\<exists>m\<in>set (Meetings store). m_userId m = user_id alice \<and> m_id m = ''m2'')
   \<and> listActionItems (signed_in alice) (Some \<lparr> la_meetingId = Some ''m2'' \<rparr>) store
       = (Inl NOT_FOUND, store)"
proof -
  have own: "\<exists>m\<in>set (Meetings store). m_userId m = user_id alice \<and> m_id m = ''m3''"
    and other: "\<not> (\<exists>m\<in>set (Meetings store). m_userId m = user_id alice \<and> m_id m = ''m2'')"
    by (simp_all only: owned_alice) simp_all
  note t3 = listActionItems_of_owner [OF caller_signed_in, where d = store and mid = "''m3''"]
  note t2 = listActionItems_of_owner [OF caller_signed_in, where d = store and mid = "''m2''"]
  have "listActionItems (signed_in alice) None store = (Inr [todo, invite], store)"
    "listActionItems (signed_in alice) (Some \<lparr> la_meetingId = None \<rparr>) store
       = (Inr [todo, invite], store)"
    using t3 by (simp_all only: items_alice)
  moreover have "listActionItems (signed_in alice) (Some \<lparr> la_meetingId = Some ''m3'' \<rparr>) store
       = (Inr [invite], store)"
    using t3 own by (simp add: items_alice)
  moreover have "listActionItems (signed_in alice) (Some \<lparr> la_meetingId = Some ''m2'' \<rparr>) store
       = (Inl NOT_FOUND, store)"
    using t2 other by simp
  ultimately show ?thesis using own other by (simp add: caller_signed_in)
qed

subsection \<open>C3: a section saved without an id\<close>

text \<open>
  C3 says that \<^verbatim>\<open>saveSection\<close> without an id, on a meeting the caller owns, inserts a
  row with a generated id and returns it. The handler generates none: \<open>baseValues\<close> has
  no id, and the insert stores these values as they are. What the code does: where the
  storage layer accepts a row without a key, the row is stored and returned with no id;
  where it does not, the call fails with the storage layer's error and nothing is stored.
\<close>

theorem saveSection_insert_generates_no_id:
  assumes auth: "caller ctx = Some u"
    and pk: "pk_ok d"
    and m: "m \<in> set (Meetings d)"
    and own: "m_userId m = user_id u"
    and mid: "ss_meetingId input = m_id m"
    and noid: "ss_id input = None"
  shows "saveSection eng ctx input now d =
           (if accepts_null_key eng
            then (Inr (Some \<lparr> s_id = None, s_meetingId = ss_meetingId input,
                               s_type = ss_type input, s_orderIndex = ss_orderIndex input,
                               s_content = ss_content input, s_createdAt = now \<rparr>),
                  d\<lparr>MeetingSections := MeetingSections d @
                       [\<lparr> s_id = None, s_meetingId = ss_meetingId input,
                          s_type = ss_type input, s_orderIndex = ss_orderIndex input,
                          s_content = ss_content input, s_createdAt = now \<rparr>]\<rparr>)
            else (Inl STORAGE_ERROR, d))"
proof -
  have row: "section_row (section_baseValues input now)
               = \<lparr> s_id = None, s_meetingId = ss_meetingId input,
                    s_type = ss_type input, s_orderIndex = ss_orderIndex input,
                    s_content = ss_content input, s_createdAt = now \<rparr>"
    by (simp add: section_row_def section_baseValues_def)
  show ?thesis
    by (simp add: saveSection_def requireUser_Some [OF auth] mid first_select1
        owned_select [OF pk m own] first_Cons noid truthy_def Let_def row db_insert_def)
qed

text \<open>C3, at the first \<^verbatim>\<open>saveSection\<close> of the specification's scenario.\<close>

theorem saveSection_insert_generates_no_id_witness:
  "caller (signed_in alice) = Some alice \<and> pk_ok store \<and> standup \<in> set (Meetings store)
   \<and> m_userId standup = user_id alice \<and> ss_meetingId add_notes = m_id standup
   \<and> ss_id add_notes = None \<and> saveSection_schema add_notes
   \<and> saveSection lenient (signed_in alice) add_notes 9 store
       = (Inr (Some \<lparr> s_id = None, s_meetingId = ''m1'', s_type = ''notes'',
                        s_orderIndex = 1, s_content = ''hi'', s_createdAt = 9 \<rparr>),
          store\<lparr>MeetingSections :=
                  [minutes, agenda,
                   \<lparr> s_id = None, s_meetingId = ''m1'', s_type = ''notes'',
                      s_orderIndex = 1, s_content = ''hi'', s_createdAt = 9 \<rparr>]\<rparr>)
   \<and> saveSection strict (signed_in alice) add_notes 9 store = (Inl STORAGE_ERROR, store)"
proof -
  have mid: "ss_meetingId add_notes = m_id standup" by (simp add: add_notes_def standup_def)
  have noid: "ss_id add_notes = None" by (simp add: add_notes_def)
  note t = saveSection_insert_generates_no_id
    [OF caller_signed_in pk_ok_store standup_in_store standup_of_alice mid noid]
  have "saveSection lenient (signed_in alice) add_notes 9 store
       = (Inr (Some \<lparr> s_id = None, s_meetingId = ''m1'', s_type = ''notes'',
                        s_orderIndex = 1, s_content = ''hi'', s_createdAt = 9 \<rparr>),
          store\<lparr>MeetingSections :=
                  [minutes, agenda,
                   \<lparr> s_id = None, s_meetingId = ''m1'', s_type = ''notes'',
                      s_orderIndex = 1, s_content = ''hi'', s_createdAt = 9 \<rparr>]\<rparr>)"
    using t [where eng = lenient and now = 9] by (simp add: lenient_def add_notes_def store_def)
  moreover have "saveSection strict (signed_in alice) add_notes 9 store
                   = (Inl STORAGE_ERROR, store)"
    using t [where eng = strict and now = 9] by (simp add: strict_def)
  moreover have "saveSection_schema add_notes"
    by (simp add: saveSection_schema_def add_notes_def)
  ultimately show ?thesis
    using mid noid by (simp add: caller_signed_in pk_ok_store standup_in_store standup_of_alice)
qed

subsection \<open>C4: updating an action item\<close>

text \<open>
  C4, as stated, says that an update by id writes \<open>assignee\<close>, \<open>dueDate\<close> and \<open>status\<close>
  to the input's values, an omitted one as absent. It fails twice. Where \<^verbatim>\<open>set\<close> skips a
  column whose value is undefined, the omitted \<open>assignee\<close> and \<open>dueDate\<close> of the stored
  item stay as they were. And an id that is the empty string is falsy: the handler takes
  the insert branch, under either storage layer, and the stored item with that id is not
  written at all.
\<close>

theorem saveActionItem_full_replace_counterexample:
  "caller (signed_in alice) = Some alice \<and> pk_ok store \<and> saveActionItem_schema close_todo
   \<and> sa_id close_todo = a_id todo \<and> sa_meetingId close_todo = a_meetingId todo
   \<and> sa_assignee close_todo = None \<and> sa_dueDate close_todo = None
   \<and> saveActionItem lenient (signed_in alice) close_todo 9 9 store
       = (Inr (Some \<lparr> a_id = Some ''a1'', a_meetingId = ''m1'', a_assignee = Some ''carol'',
                        a_description = ''minutes sent'', a_dueDate = Some 50,
                        a_status = Some ''done'', a_createdAt = 9, a_updatedAt = 9 \<rparr>),
          store\<lparr>ActionItems :=
                  [\<lparr> a_id = Some ''a1'', a_meetingId = ''m1'', a_assignee = Some ''carol'',
                      a_description = ''minutes sent'', a_dueDate = Some 50,
                      a_status = Some ''done'', a_createdAt = 9, a_updatedAt = 9 \<rparr>,
                   followup, invite]\<rparr>)
   \<and> pk_ok blank_store \<and> saveActionItem_schema close_blank
   \<and> sa_id close_blank = a_id blank_item \<and> sa_meetingId close_blank = a_meetingId blank_item
   \<and> saveActionItem strict (signed_in alice) close_blank 9 9 blank_store
       = (Inl STORAGE_ERROR, blank_store)
   \<and> saveActionItem lenient (signed_in alice) close_blank 9 9 blank_store
       = (Inr (Some \<lparr> a_id = None, a_meetingId = ''m1'', a_assignee = None,
                        a_description = ''lunch ordered'', a_dueDate = None,
                        a_status = Some ''done'', a_createdAt = 9, a_updatedAt = 9 \<rparr>),
          blank_store\<lparr>ActionItems :=
                  [blank_item,
                   \<lparr> a_id = None, a_meetingId = ''m1'', a_assignee = None,
                      a_description = ''lunch ordered'', a_dueDate = None,
                      a_status = Some ''done'', a_createdAt = 9, a_updatedAt = 9 \<rparr>]\<rparr>)"
proof -
  have "saveActionItem lenient (signed_in alice) close_todo 9 9 store
       = (Inr (Some \<lparr> a_id = Some ''a1'', a_meetingId = ''m1'', a_assignee = Some ''carol'',
                        a_description = ''minutes sent'', a_dueDate = Some 50,
                        a_status = Some ''done'', a_createdAt = 9, a_updatedAt = 9 \<rparr>),
          store\<lparr>ActionItems :=
                  [\<lparr> a_id = Some ''a1'', a_meetingId = ''m1'', a_assignee = Some ''carol'',
                      a_description = ''minutes sent'', a_dueDate = Some 50,
                      a_status = Some ''done'', a_createdAt = 9, a_updatedAt = 9 \<rparr>,
                   followup, invite]\<rparr>)"
    by (simp add: saveActionItem_def requireUser_def caller_signed_in first_def db_select1_def
        owned_by_def truthy_def db_update_def set_column_def item_baseValues_def item_set_def
        store_def standup_def retro_def planning_def alice_def close_todo_def lenient_def
        todo_def followup_def invite_def)
  moreover have "saveActionItem strict (signed_in alice) close_blank 9 9 blank_store
       = (Inl STORAGE_ERROR, blank_store)"
    by (simp add: saveActionItem_def requireUser_def caller_signed_in first_def db_select1_def
        owned_by_def truthy_def db_insert_def item_baseValues_def item_row_def
        blank_store_def standup_def retro_def alice_def close_blank_def strict_def)
  moreover have "saveActionItem lenient (signed_in alice) close_blank 9 9 blank_store
       = (Inr (Some \<lparr> a_id = None, a_meetingId = ''m1'', a_assignee = None,
                        a_description = ''lunch ordered'', a_dueDate = None,
                        a_status = Some ''done'', a_createdAt = 9, a_updatedAt = 9 \<rparr>),
          blank_store\<lparr>ActionItems :=
                  [blank_item,
                   \<lparr> a_id = None, a_meetingId = ''m1'', a_assignee = None,
                      a_description = ''lunch ordered'', a_dueDate = None,
                      a_status = Some ''done'', a_createdAt = 9, a_updatedAt = 9 \<rparr>]\<rparr>)"
    by (simp add: saveActionItem_def requireUser_def caller_signed_in first_def db_select1_def
        owned_by_def truthy_def db_insert_def item_baseValues_def item_row_def
        blank_store_def standup_def retro_def alice_def close_blank_def lenient_def)
  moreover have "saveActionItem_schema close_todo" "sa_id close_todo = a_id todo"
    "sa_meetingId close_todo = a_meetingId todo" "sa_assignee close_todo = None"
    "sa_dueDate close_todo = None" "saveActionItem_schema close_blank"
    "sa_id close_blank = a_id blank_item" "sa_meetingId close_blank = a_meetingId blank_item"
    by (simp_all add: saveActionItem_schema_def close_todo_def todo_def close_blank_def
        blank_item_def)
  ultimately show ?thesis by (simp add: caller_signed_in pk_ok_store pk_ok_blank_store)
qed

text \<open>
  C4, amended. For a signed-in caller, \<^verbatim>\<open>saveActionItem\<close> with a non-empty id of an
  action item of the supplied meeting, which the caller owns, writes that one row:
  \<open>description\<close> from the input, \<open>createdAt\<close> and \<open>updatedAt\<close> from the two readings of
  the clock, and each of \<open>assignee\<close>, \<open>dueDate\<close> and \<open>status\<close> from the input when the
  caller supplies it. One the caller omits is written as absent where the storage
  layer's \<^verbatim>\<open>set\<close> writes undefined columns, and keeps its stored value where \<^verbatim>\<open>set\<close>
  skips them. The row's id and \<open>meetingId\<close> stay, and the updated row is returned.
\<close>

theorem saveActionItem_update_writes:
  assumes auth: "caller ctx = Some u"
    and pk: "pk_ok d"
    and m: "m \<in> set (Meetings d)"
    and own: "m_userId m = user_id u"
    and mid: "sa_meetingId input = m_id m"
    and id: "sa_id input = Some aid" "aid \<noteq> []"
    and a: "a \<in> set (ActionItems d)" "a_id a = Some aid" "a_meetingId a = m_id m"
  shows "\<exists>a'. saveActionItem eng ctx input now_c now_u d
                = (Inr (Some a'),
                   d\<lparr>ActionItems := map (\<lambda>r. if r = a then a' else r) (ActionItems d)\<rparr>)
          \<and> a_id a' = a_id a \<and> a_meetingId a' = a_meetingId a
          \<and> a_description a' = sa_description input
          \<and> a_createdAt a' = now_c \<and> a_updatedAt a' = now_u
          \<and> a_assignee a' = (case sa_assignee input of Some v \<Rightarrow> Some v
                | None \<Rightarrow> if set_ignores_undefined eng then a_assignee a else None)
          \<and> a_dueDate a' = (case sa_dueDate input of Some v \<Rightarrow> Some v
                | None \<Rightarrow> if set_ignores_undefined eng then a_dueDate a else None)
          \<and> a_status a' = (case sa_status input of Some v \<Rightarrow> Some v
                | None \<Rightarrow> if set_ignores_undefined eng then a_status a else None)"
proof -
  let ?a' = "item_set eng (item_baseValues input now_c now_u) a"
  from pk have "pk_distinct a_id (ActionItems d)" by (simp add: pk_ok_def)
  then have sel: "filter (\<lambda>r. a_id r = Some aid) (ActionItems d) = [a]"
    using a(1,2) by (rule pk_filter_key)
  have "saveActionItem eng ctx input now_c now_u d
          = (Inr (Some ?a'), d\<lparr>ActionItems := map (\<lambda>r. if r = a then ?a' else r) (ActionItems d)\<rparr>)"
    by (simp add: saveActionItem_def requireUser_Some [OF auth] mid first_select1
        owned_select [OF pk m own] first_Cons id truthy_def sel a(3) Let_def
        db_update_single [OF sel])
  then show ?thesis
    by (intro exI [of _ ?a'])
       (simp add: item_set_def item_baseValues_def set_column_def mid a(3))
qed

text \<open>C4, amended, at Alice closing her item \<open>a1\<close> on a storage layer that writes undefined.\<close>

theorem saveActionItem_update_writes_witness:
  "caller (signed_in alice) = Some alice \<and> pk_ok store \<and> standup \<in> set (Meetings store)
   \<and> m_userId standup = user_id alice \<and> sa_meetingId close_todo = m_id standup
   \<and> sa_id close_todo = Some ''a1'' \<and> ''a1'' \<noteq> [] \<and> todo \<in> set (ActionItems store)
   \<and> a_id todo = Some ''a1'' \<and> a_meetingId todo = m_id standup
   \<and> saveActionItem strict (signed_in alice) close_todo 8 9 store
       = (Inr (Some \<lparr> a_id = Some ''a1'', a_meetingId = ''m1'', a_assignee = None,
                        a_description = ''minutes sent'', a_dueDate = None,
                        a_status = Some ''done'', a_createdAt = 8, a_updatedAt = 9 \<rparr>),
          store\<lparr>ActionItems :=
                  [\<lparr> a_id = Some ''a1'', a_meetingId = ''m1'', a_assignee = None,
                      a_description = ''minutes sent'', a_dueDate = None,
                      a_status = Some ''done'', a_createdAt = 8, a_updatedAt = 9 \<rparr>,
                   followup, invite]\<rparr>)"
proof -
  have mid: "sa_meetingId close_todo = m_id standup" by (simp add: close_todo_def standup_def)
  have id: "sa_id close_todo = Some ''a1''" "''a1'' \<noteq> []" by (simp_all add: close_todo_def)
  have a: "a_id todo = Some ''a1''" "a_meetingId todo = m_id standup"
    by (simp_all add: todo_def standup_def)
  from saveActionItem_update_writes
    [OF caller_signed_in pk_ok_store standup_in_store standup_of_alice mid id todo_in_store a,
      where eng = strict and now_c = 8 and now_u = 9]
  obtain a' where
    r: "saveActionItem strict (signed_in alice) close_todo 8 9 store
          = (Inr (Some a'),
             store\<lparr>ActionItems := map (\<lambda>r. if r = todo then a' else r) (ActionItems store)\<rparr>)"
    and f: "a_id a' = a_id todo" "a_meetingId a' = a_meetingId todo"
      "a_description a' = sa_description close_todo" "a_createdAt a' = 8" "a_updatedAt a' = 9"
      "a_assignee a' = (case sa_assignee close_todo of Some v \<Rightarrow> Some v
          | None \<Rightarrow> if set_ignores_undefined strict then a_assignee todo else None)"
      "a_dueDate a' = (case sa_dueDate close_todo of Some v \<Rightarrow> Some v
          | None \<Rightarrow> if set_ignores_undefined strict then a_dueDate todo else None)"
      "a_status a' = (case sa_status close_todo of Some v \<Rightarrow> Some v
          | None \<Rightarrow> if set_ignores_undefined strict then a_status todo else None)"
    by blast
  from f have a': "a' = \<lparr> a_id = Some ''a1'', a_meetingId = ''m1'', a_assignee = None,
                        a_description = ''minutes sent'', a_dueDate = None,
                        a_status = Some ''done'', a_createdAt = 8, a_updatedAt = 9 \<rparr>"
    by (cases a') (simp add: todo_def close_todo_def strict_def)
  have "map (\<lambda>r. if r = todo then a' else r) (ActionItems store) = [a', followup, invite]"
    by (simp add: store_def todo_def followup_def invite_def)
  with r a' mid id a show ?thesis
    by (simp add: caller_signed_in pk_ok_store standup_in_store standup_of_alice todo_in_store)
qed

subsection \<open>C5: an update with no fields\<close>

text \<open>
  C5. \<^verbatim>\<open>updateMeeting\<close> by the owner with none of \<open>title\<close>, \<open>sourceType\<close>, \<open>sourceUrl\<close>,
  \<open>scheduledAt\<close> and \<open>durationMinutes\<close> in the input returns the stored row as it is and
  leaves every table, and so the row's \<open>updatedAt\<close>, as it was.
\<close>

theorem updateMeeting_without_fields:
  assumes auth: "caller ctx = Some u"
    and pk: "pk_ok d"
    and m: "m \<in> set (Meetings d)"
    and own: "m_userId m = user_id u"
    and id: "um_id input = m_id m"
    and absent: "um_title input = None" "um_sourceType input = None" "um_sourceUrl input = None"
      "um_scheduledAt input = None" "um_durationMinutes input = None"
  shows "updateMeeting ctx input now d = (Inr (Some m), d)"
  by (simp add: updateMeeting_def requireUser_Some [OF auth] id first_select1
      owned_select [OF pk m own] first_Cons no_keys_def updateData_def absent)

text \<open>C5, at Alice updating her meeting \<open>m1\<close> with the id alone.\<close>

theorem updateMeeting_without_fields_witness:
  "caller (signed_in alice) = Some alice \<and> pk_ok store \<and> standup \<in> set (Meetings store)
   \<and> m_userId standup = user_id alice \<and> um_id touch = m_id standup
   \<and> um_title touch = None \<and> um_sourceType touch = None \<and> um_sourceUrl touch = None
   \<and> um_scheduledAt touch = None \<and> um_durationMinutes touch = None
   \<and> updateMeeting (signed_in alice) touch 9 store = (Inr (Some standup), store)"
proof -
  have id: "um_id touch = m_id standup" by (simp add: touch_def standup_def)
  have absent: "um_title touch = None" "um_sourceType touch = None" "um_sourceUrl touch = None"
    "um_scheduledAt touch = None" "um_durationMinutes touch = None"
    by (simp_all add: touch_def)
  from updateMeeting_without_fields
    [OF caller_signed_in pk_ok_store standup_in_store standup_of_alice id absent,
      where now = 9]
  show ?thesis
    using id absent by (simp add: caller_signed_in pk_ok_store standup_in_store standup_of_alice)
qed

subsection \<open>C6: a section of another meeting\<close>

text \<open>
  C6, as stated, covers every id that references a stored section of another meeting.
  The empty string can be such an id, and it is falsy: the handler does not look the
  section up, and inserts (or, on a storage layer that refuses a row without a key, fails
  with that layer's error). Either way the call does not fail with \<open>NOT_FOUND\<close>.
\<close>

theorem saveSection_foreign_section_counterexample:
  "caller (signed_in alice) = Some alice \<and> pk_ok blank_store \<and> saveSection_schema take_blank
   \<and> blank_section \<in> set (MeetingSections blank_store)
   \<and> ss_id take_blank = s_id blank_section
   \<and> s_meetingId blank_section \<noteq> ss_meetingId take_blank
   \<and> saveSection lenient (signed_in alice) take_blank 9 blank_store
       = (Inr (Some \<lparr> s_id = None, s_meetingId = ''m1'', s_type = ''notes'',
                        s_orderIndex = 1, s_content = ''mine'', s_createdAt = 9 \<rparr>),
          blank_store\<lparr>MeetingSections :=
                  [blank_section,
                   \<lparr> s_id = None, s_meetingId = ''m1'', s_type = ''notes'',
                      s_orderIndex = 1, s_content = ''mine'', s_createdAt = 9 \<rparr>]\<rparr>)
   \<and> saveSection strict (signed_in alice) take_blank 9 blank_store
       = (Inl STORAGE_ERROR, blank_store)"
proof -
  have "saveSection lenient (signed_in alice) take_blank 9 blank_store
       = (Inr (Some \<lparr> s_id = None, s_meetingId = ''m1'', s_type = ''notes'',
                        s_orderIndex = 1, s_content = ''mine'', s_createdAt = 9 \<rparr>),
          blank_store\<lparr>MeetingSections :=
                  [blank_section,
                   \<lparr> s_id = None, s_meetingId = ''m1'', s_type = ''notes'',
                      s_orderIndex = 1, s_content = ''mine'', s_createdAt = 9 \<rparr>]\<rparr>)"
    by (simp add: saveSection_def requireUser_def caller_signed_in first_def db_select1_def
        owned_by_def truthy_def db_insert_def section_baseValues_def section_row_def
        blank_store_def standup_def retro_def alice_def take_blank_def lenient_def)
  moreover have "saveSection strict (signed_in alice) take_blank 9 blank_store
       = (Inl STORAGE_ERROR, blank_store)"
    by (simp add: saveSection_def requireUser_def caller_signed_in first_def db_select1_def
        owned_by_def truthy_def db_insert_def section_baseValues_def section_row_def
        blank_store_def standup_def retro_def alice_def take_blank_def strict_def)
  moreover have "saveSection_schema take_blank"
    "blank_section \<in> set (MeetingSections blank_store)"
    "ss_id take_blank = s_id blank_section"
    "s_meetingId blank_section \<noteq> ss_meetingId take_blank"
    by (simp_all add: saveSection_schema_def take_blank_def blank_store_def blank_section_def)
  ultimately show ?thesis by (simp add: caller_signed_in pk_ok_blank_store)
qed

text \<open>
  C6, amended. For a signed-in caller, \<^verbatim>\<open>saveSection\<close> with a non-empty id of a stored
  section whose \<open>meetingId\<close> is not the supplied one fails with \<open>NOT_FOUND\<close>, whether or
  not the caller owns the supplied meeting, and leaves every table as it was.
\<close>

theorem saveSection_foreign_section_is_NOT_FOUND:
  assumes auth: "caller ctx = Some u"
    and pk: "pk_ok d"
    and id: "ss_id input = Some sid" "sid \<noteq> []"
    and s: "s \<in> set (MeetingSections d)" "s_id s = Some sid"
    and foreign: "s_meetingId s \<noteq> ss_meetingId input"
  shows "saveSection eng ctx input now d = (Inl NOT_FOUND, d)"
proof -
  from pk have "pk_distinct s_id (MeetingSections d)" by (simp add: pk_ok_def)
  then have sel: "filter (\<lambda>r. s_id r = Some sid) (MeetingSections d) = [s]"
    using s by (rule pk_filter_key)
  show ?thesis
    by (cases "first (filter (owned_by (ss_meetingId input) u) (Meetings d))")
       (simp_all add: saveSection_def requireUser_Some [OF auth] first_select1 id truthy_def
          sel first_Cons foreign Let_def)
qed

text \<open>C6, amended, at Alice saving Bob's section \<open>s2\<close> under her meeting \<open>m1\<close>.\<close>

theorem saveSection_foreign_section_is_NOT_FOUND_witness:
  "caller (signed_in alice) = Some alice \<and> pk_ok store
   \<and> ss_id take_agenda = Some ''s2'' \<and> ''s2'' \<noteq> []
   \<and> agenda \<in> set (MeetingSections store) \<and> s_id agenda = Some ''s2''
   \<and> s_meetingId agenda \<noteq> ss_meetingId take_agenda
   \<and> saveSection lenient (signed_in alice) take_agenda 9 store = (Inl NOT_FOUND, store)"
proof -
  have id: "ss_id take_agenda = Some ''s2''" "''s2'' \<noteq> []" by (simp_all add: take_agenda_def)
  have s: "s_id agenda = Some ''s2''" by (simp add: agenda_def)
  have foreign: "s_meetingId agenda \<noteq> ss_meetingId take_agenda"
    by (simp add: agenda_def take_agenda_def)
  from saveSection_foreign_section_is_NOT_FOUND
    [OF caller_signed_in pk_ok_store id agenda_in_store s foreign,
      where eng = lenient and now = 9]
  show ?thesis
    using id s foreign by (simp add: caller_signed_in pk_ok_store agenda_in_store)
qed

subsection \<open>C7: an update writes the fields that are present\<close>

text \<open>
  C7. \<^verbatim>\<open>updateMeeting\<close> by the owner returns and stores a row that has the input's
  value in every field the input holds and the stored value in every field it does not;
  its \<open>id\<close>, \<open>userId\<close> and \<open>createdAt\<close> are the stored ones. No other row changes.
  \<open>updatedAt\<close> is stamped when the input holds a field.
\<close>

theorem updateMeeting_writes_present_fields:
  assumes auth: "caller ctx = Some u"
    and pk: "pk_ok d"
    and m: "m \<in> set (Meetings d)"
    and own: "m_userId m = user_id u"
    and id: "um_id input = m_id m"
  shows "\<exists>m'. updateMeeting ctx input now d
                = (Inr (Some m'), d\<lparr>Meetings := map (\<lambda>r. if r = m then m' else r) (Meetings d)\<rparr>)
          \<and> m_id m' = m_id m \<and> m_userId m' = m_userId m \<and> m_createdAt m' = m_createdAt m
          \<and> m_title m' = (case um_title input of Some v \<Rightarrow> v | None \<Rightarrow> m_title m)
          \<and> m_sourceType m' = (case um_sourceType input of Some v \<Rightarrow> Some v | None \<Rightarrow> m_sourceType m)
          \<and> m_sourceUrl m' = (case um_sourceUrl input of Some v \<Rightarrow> Some v | None \<Rightarrow> m_sourceUrl m)
          \<and> m_scheduledAt m'
              = (case um_scheduledAt input of Some v \<Rightarrow> Some v | None \<Rightarrow> m_scheduledAt m)
          \<and> m_durationMinutes m'
              = (case um_durationMinutes input of Some v \<Rightarrow> Some v | None \<Rightarrow> m_durationMinutes m)
          \<and> m_updatedAt m' = (if no_keys (updateData input) then m_updatedAt m else now)"
proof (cases "no_keys (updateData input)")
  case True
  then have "updateMeeting ctx input now d
                = (Inr (Some m), d\<lparr>Meetings := map (\<lambda>r. if r = m then m else r) (Meetings d)\<rparr>)"
    by (simp add: updateMeeting_def requireUser_Some [OF auth] id first_select1
        owned_select [OF pk m own] first_Cons map_replace_same)
  moreover from True have "um_title input = None" "um_sourceType input = None"
    "um_sourceUrl input = None" "um_scheduledAt input = None" "um_durationMinutes input = None"
    by (simp_all add: no_keys_def updateData_def)
  ultimately show ?thesis using True by (intro exI [of _ m]) simp
next
  case False
  let ?m' = "meeting_set (updateData input) now m"
  have "updateMeeting ctx input now d
          = (Inr (Some ?m'), d\<lparr>Meetings := map (\<lambda>r. if r = m then ?m' else r) (Meetings d)\<rparr>)"
    using False
    by (simp add: updateMeeting_def requireUser_Some [OF auth] id first_select1
        owned_select [OF pk m own] first_Cons db_update_single [OF owned_select [OF pk m own]])
  then show ?thesis using False
    by (intro exI [of _ ?m']) (simp add: meeting_set_def updateData_def)
qed

text \<open>C7, at Alice giving \<open>m1\<close> a new title and a date: source type and duration stay.\<close>

theorem updateMeeting_writes_present_fields_witness:
  "caller (signed_in alice) = Some alice \<and> pk_ok store \<and> standup \<in> set (Meetings store)
   \<and> m_userId standup = user_id alice \<and> um_id retitle = m_id standup
   \<and> updateMeeting (signed_in alice) retitle 9 store
       = (Inr (Some (standup\<lparr> m_title := ''Weekly'', m_scheduledAt := Some 90,
                              m_updatedAt := 9 \<rparr>)),
          store\<lparr>Meetings := [standup\<lparr> m_title := ''Weekly'', m_scheduledAt := Some 90,
                                       m_updatedAt := 9 \<rparr>, retro, planning]\<rparr>)"
proof -
  have id: "um_id retitle = m_id standup" by (simp add: retitle_def standup_def)
  from updateMeeting_writes_present_fields
    [OF caller_signed_in pk_ok_store standup_in_store standup_of_alice id, where now = 9]
  obtain m' where
    r: "updateMeeting (signed_in alice) retitle 9 store
          = (Inr (Some m'),
             store\<lparr>Meetings := map (\<lambda>r. if r = standup then m' else r) (Meetings store)\<rparr>)"
    and f: "m_id m' = m_id standup" "m_userId m' = m_userId standup"
      "m_createdAt m' = m_createdAt standup"
      "m_title m' = (case um_title retitle of Some v \<Rightarrow> v | None \<Rightarrow> m_title standup)"
      "m_sourceType m'
         = (case um_sourceType retitle of Some v \<Rightarrow> Some v | None \<Rightarrow> m_sourceType standup)"
      "m_sourceUrl m'
         = (case um_sourceUrl retitle of Some v \<Rightarrow> Some v | None \<Rightarrow> m_sourceUrl standup)"
      "m_scheduledAt m'
         = (case um_scheduledAt retitle of Some v \<Rightarrow> Some v | None \<Rightarrow> m_scheduledAt standup)"
      "m_durationMinutes m'
         = (case um_durationMinutes retitle of Some v \<Rightarrow> Some v
            | None \<Rightarrow> m_durationMinutes standup)"
      "m_updatedAt m' = (if no_keys (updateData retitle) then m_updatedAt standup else 9)"
    by blast
  from f have m': "m' = standup\<lparr> m_title := ''Weekly'', m_scheduledAt := Some 90,
                                 m_updatedAt := 9 \<rparr>"
    by (cases m') (simp add: standup_def retitle_def no_keys_def updateData_def)
  have "map (\<lambda>r. if r = standup then m' else r) (Meetings store) = [m', retro, planning]"
    by (simp add: store_def standup_def retro_def planning_def)
  with r m' id show ?thesis
    by (simp add: caller_signed_in pk_ok_store standup_in_store standup_of_alice)
qed

subsection \<open>C8: the creation time of a section\<close>

text \<open>
  C8 says that an update by id leaves the stored \<open>createdAt\<close> of a section unchanged.
  The handler puts \<^verbatim>\<open>createdAt: new Date()\<close> into \<open>baseValues\<close> and sets the same values
  on update as on insert. What the code does: the updated row's \<open>createdAt\<close> is the time
  of the update, whatever it was before.
\<close>

theorem saveSection_update_restamps_createdAt:
  assumes auth: "caller ctx = Some u"
    and pk: "pk_ok d"
    and m: "m \<in> set (Meetings d)"
    and own: "m_userId m = user_id u"
    and mid: "ss_meetingId input = m_id m"
    and id: "ss_id input = Some sid" "sid \<noteq> []"
    and s: "s \<in> set (MeetingSections d)" "s_id s = Some sid" "s_meetingId s = m_id m"
  shows "saveSection eng ctx input now d =
           (Inr (Some (s\<lparr> s_type := ss_type input, s_orderIndex := ss_orderIndex input,
                          s_content := ss_content input, s_createdAt := now \<rparr>)),
            d\<lparr>MeetingSections :=
                 map (\<lambda>r. if r = s
                           then s\<lparr> s_type := ss_type input, s_orderIndex := ss_orderIndex input,
                                   s_content := ss_content input, s_createdAt := now \<rparr>
                           else r) (MeetingSections d)\<rparr>)"
proof -
  from pk have "pk_distinct s_id (MeetingSections d)" by (simp add: pk_ok_def)
  then have sel: "filter (\<lambda>r. s_id r = Some sid) (MeetingSections d) = [s]"
    using s(1,2) by (rule pk_filter_key)
  have same: "section_set (section_baseValues input now) s
                = s\<lparr> s_type := ss_type input, s_orderIndex := ss_orderIndex input,
                      s_content := ss_content input, s_createdAt := now \<rparr>"
    using s(3) by (simp add: section_set_def section_baseValues_def mid)
  show ?thesis
    by (simp add: saveSection_def requireUser_Some [OF auth] mid first_select1
        owned_select [OF pk m own] first_Cons id truthy_def sel s(3) Let_def
        db_update_single [OF sel] same)
qed

text \<open>C8, at Alice editing her section \<open>s1\<close>, created at 3, at time 9.\<close>

theorem saveSection_update_restamps_createdAt_witness:
  "caller (signed_in alice) = Some alice \<and> pk_ok store \<and> standup \<in> set (Meetings store)
   \<and> m_userId standup = user_id alice \<and> ss_meetingId edit_notes = m_id standup
   \<and> ss_id edit_notes = Some ''s1'' \<and> ''s1'' \<noteq> [] \<and> minutes \<in> set (MeetingSections store)
   \<and> s_id minutes = Some ''s1'' \<and> s_meetingId minutes = m_id standup
   \<and> saveSection_schema edit_notes \<and> s_createdAt minutes = 3
   \<and> saveSection lenient (signed_in alice) edit_notes 9 store
       = (Inr (Some \<lparr> s_id = Some ''s1'', s_meetingId = ''m1'', s_type = ''notes'',
                        s_orderIndex = 1, s_content = ''bye'', s_createdAt = 9 \<rparr>),
          store\<lparr>MeetingSections :=
                  [\<lparr> s_id = Some ''s1'', s_meetingId = ''m1'', s_type = ''notes'',
                      s_orderIndex = 1, s_content = ''bye'', s_createdAt = 9 \<rparr>, agenda]\<rparr>)"
proof -
  have mid: "ss_meetingId edit_notes = m_id standup" by (simp add: edit_notes_def standup_def)
  have id: "ss_id edit_notes = Some ''s1''" "''s1'' \<noteq> []" by (simp_all add: edit_notes_def)
  have s: "s_id minutes = Some ''s1''" "s_meetingId minutes = m_id standup"
    by (simp_all add: minutes_def standup_def)
  have "saveSection lenient (signed_in alice) edit_notes 9 store
       = (Inr (Some \<lparr> s_id = Some ''s1'', s_meetingId = ''m1'', s_type = ''notes'',
                        s_orderIndex = 1, s_content = ''bye'', s_createdAt = 9 \<rparr>),
          store\<lparr>MeetingSections :=
                  [\<lparr> s_id = Some ''s1'', s_meetingId = ''m1'', s_type = ''notes'',
                      s_orderIndex = 1, s_content = ''bye'', s_createdAt = 9 \<rparr>, agenda]\<rparr>)"
    using saveSection_update_restamps_createdAt
      [OF caller_signed_in pk_ok_store standup_in_store standup_of_alice mid id
        minutes_in_store s, where eng = lenient and now = 9]
    by (simp add: edit_notes_def store_def minutes_def agenda_def)
  moreover have "saveSection_schema edit_notes" "s_createdAt minutes = 3"
    by (simp_all add: saveSection_schema_def edit_notes_def minutes_def)
  ultimately show ?thesis
    using mid id s
    by (simp add: caller_signed_in pk_ok_store standup_in_store standup_of_alice
        minutes_in_store)
qed

subsection \<open>C9: no caller\<close>

text \<open>
  C9, as stated, says that every call with no resolvable caller fails with
  \<open>UNAUTHORIZED\<close>. The schema is checked before the handler resolves the caller: a
  \<^verbatim>\<open>createMeeting\<close> call with an empty title and no user fails with \<open>BAD_REQUEST\<close>.
\<close>

theorem unresolved_caller_counterexample:
  "caller anonymous = None
   \<and> cm_title (create_standup\<lparr>cm_title := ''''\<rparr>) = ''''
   \<and> server_createMeeting lenient anonymous (create_standup\<lparr>cm_title := ''''\<rparr>) ''u-1'' 9 9 store
       = (Inl BAD_REQUEST, store)
   \<and> fst (server_createMeeting lenient anonymous (create_standup\<lparr>cm_title := ''''\<rparr>)
            ''u-1'' 9 9 store) \<noteq> Inl UNAUTHORIZED"
  by (simp add: caller_anonymous server_createMeeting_def defineAction_def
      createMeeting_schema_def create_standup_def)

text \<open>
  C9, amended. For each of the eight operations, a call whose input the operation's
  schema admits and whose caller cannot be resolved fails with \<open>UNAUTHORIZED\<close> and
  leaves every table as it was. The schemas of \<^verbatim>\<open>listMeetings\<close>, \<^verbatim>\<open>deleteMeeting\<close>,
  \<^verbatim>\<open>deleteSection\<close> and \<^verbatim>\<open>listActionItems\<close> admit every input of their type.
\<close>

theorem unresolved_caller_is_unauthorized:
  assumes "caller ctx = None"
    and "createMeeting_schema ci" and "updateMeeting_schema ui"
    and "saveSection_schema si" and "saveActionItem_schema ai"
  shows "server_createMeeting eng ctx ci uuid now_c now_u d = (Inl UNAUTHORIZED, d)
       \<and> server_updateMeeting ctx ui now d = (Inl UNAUTHORIZED, d)
       \<and> server_listMeetings ctx lmi d = (Inl UNAUTHORIZED, d)
       \<and> server_deleteMeeting eng ctx di d = (Inl UNAUTHORIZED, d)
       \<and> server_saveSection eng ctx si now d = (Inl UNAUTHORIZED, d)
       \<and> server_deleteSection ctx dsi d = (Inl UNAUTHORIZED, d)
       \<and> server_saveActionItem eng ctx ai now_c now_u d = (Inl UNAUTHORIZED, d)
       \<and> server_listActionItems ctx li d = (Inl UNAUTHORIZED, d)"
  using handlers_require_user [OF assms(1), where eng = eng and d = d and ci = ci
      and ui = ui and di = di and si = si and dsi = dsi and ai = ai and li = li
      and uuid = uuid and now = now and now_c = now_c and now_u = now_u]
    assms(2-)
  by (simp add: server_createMeeting_def server_updateMeeting_def server_listMeetings_def
      server_deleteMeeting_def server_saveSection_def server_deleteSection_def
      server_saveActionItem_def server_listActionItems_def defineAction_def
      listMeetings_schema_def deleteMeeting_schema_def deleteSection_schema_def
      listActionItems_schema_def)

text \<open>C9, amended, at a request with no user and inputs within their schemas.\<close>

theorem unresolved_caller_is_unauthorized_witness:
  "caller anonymous = None
   \<and> createMeeting_schema create_standup \<and> updateMeeting_schema retitle
   \<and> saveSection_schema add_notes \<and> saveActionItem_schema close_todo
   \<and> server_createMeeting strict anonymous create_standup ''u-1'' 9 9 store
       = (Inl UNAUTHORIZED, store)
   \<and> server_updateMeeting anonymous retitle 9 store = (Inl UNAUTHORIZED, store)
   \<and> server_listMeetings anonymous None store = (Inl UNAUTHORIZED, store)
   \<and> server_deleteMeeting strict anonymous \<lparr> dm_id = ''m1'' \<rparr> store
       = (Inl UNAUTHORIZED, store)
   \<and> server_saveSection strict anonymous add_notes 9 store = (Inl UNAUTHORIZED, store)
   \<and> server_deleteSection anonymous drop_notes store = (Inl UNAUTHORIZED, store)
   \<and> server_saveActionItem strict anonymous close_todo 9 9 store
       = (Inl UNAUTHORIZED, store)
   \<and> server_listActionItems anonymous None store = (Inl UNAUTHORIZED, store)"
proof -
  have s: "createMeeting_schema create_standup" "updateMeeting_schema retitle"
    "saveSection_schema add_notes" "saveActionItem_schema close_todo"
    by (simp_all add: createMeeting_schema_def updateMeeting_schema_def
        saveSection_schema_def saveActionItem_schema_def positive_opt_def nonempty_opt_def
        create_standup_def retitle_def add_notes_def close_todo_def)
  from unresolved_caller_is_unauthorized [OF caller_anonymous s,
      where eng = strict and d = store and uuid = "''u-1''" and now = 9 and now_c = 9
        and now_u = 9 and lmi = None and di = "\<lparr> dm_id = ''m1'' \<rparr>" and dsi = drop_notes
        and li = None]
  show ?thesis using s by (simp add: caller_anonymous)
qed

subsection \<open>C10: the empty string as a meeting id\<close>

text \<open>
  C10, as stated, says that the empty string is never an owned meeting id.
  \<^verbatim>\<open>createMeeting\<close> keeps the id the caller supplies (\<^verbatim>\<open>input.id ?? crypto.randomUUID()\<close>
  replaces an absent id only) and the schema admits the empty string: Alice creates a
  meeting whose id is the empty string, and \<^verbatim>\<open>listMeetings\<close> returns it as hers.
\<close>

theorem empty_meeting_id_is_owned_counterexample:
  "caller (signed_in alice) = Some alice \<and> createMeeting_schema create_blank
   \<and> cm_id create_blank = Some ''''
   \<and> server_createMeeting lenient (signed_in alice) create_blank ''u-1'' 9 9 store
       = (Inr (Some unnamed), store\<lparr>Meetings := [standup, retro, planning, unnamed]\<rparr>)
   \<and> m_id unnamed = '''' \<and> m_userId unnamed = user_id alice
   \<and> listMeetings (signed_in alice) (store\<lparr>Meetings := [standup, retro, planning, unnamed]\<rparr>)
       = (Inr [standup, planning, unnamed],
          store\<lparr>Meetings := [standup, retro, planning, unnamed]\<rparr>)"
proof -
  have "server_createMeeting lenient (signed_in alice) create_blank ''u-1'' 9 9 store
       = (Inr (Some unnamed), store\<lparr>Meetings := [standup, retro, planning, unnamed]\<rparr>)"
    by (simp add: server_createMeeting_def defineAction_def createMeeting_schema_def
        positive_opt_def createMeeting_def requireUser_def caller_signed_in db_insert_def
        first_def Let_def create_blank_def unnamed_def alice_def store_def standup_def retro_def
        planning_def)
  moreover have "listMeetings (signed_in alice)
         (store\<lparr>Meetings := [standup, retro, planning, unnamed]\<rparr>)
       = (Inr [standup, planning, unnamed],
          store\<lparr>Meetings := [standup, retro, planning, unnamed]\<rparr>)"
    by (simp add: listMeetings_def requireUser_def caller_signed_in alice_def standup_def
        retro_def planning_def unnamed_def)
  moreover have "createMeeting_schema create_blank" "cm_id create_blank = Some ''''"
    "m_id unnamed = ''''" "m_userId unnamed = user_id alice"
    by (simp_all add: createMeeting_schema_def positive_opt_def create_blank_def unnamed_def
        alice_def)
  ultimately show ?thesis by (simp add: caller_signed_in)
qed

text \<open>
  C10, amended. \<^verbatim>\<open>listActionItems\<close> with the empty string as \<open>meetingId\<close> does what it
  does with no input, whether or not the empty string is the id of one of the caller's
  meetings: it never fails with \<open>NOT_FOUND\<close>, and for a signed-in caller it returns the
  action items whose \<open>meetingId\<close> is the id of a stored meeting whose \<open>userId\<close> is the
  caller's id, those of every such meeting and not of the one requested alone.
\<close>

theorem listActionItems_empty_meetingId:
  "listActionItems ctx (Some \<lparr>la_meetingId = Some ''''\<rparr>) d = listActionItems ctx None d
   \<and> fst (listActionItems ctx (Some \<lparr>la_meetingId = Some ''''\<rparr>) d) \<noteq> Inl NOT_FOUND
   \<and> (caller ctx = Some u \<longrightarrow>
        listActionItems ctx (Some \<lparr>la_meetingId = Some ''''\<rparr>) d
          = (Inr (filter (\<lambda>i. \<exists>m\<in>set (Meetings d).
                                 m_userId m = user_id u \<and> m_id m = a_meetingId i)
                    (ActionItems d)), d))"
  using listActionItems_empty_by_allowed [where ctx = ctx and d = d and u = u]
  unfolding allowedMeetingIds_iff .

text \<open>
  C10, amended, at Alice: where no meeting has the empty id, and where one of hers has
  it and the call still returns the items of all her meetings.
\<close>

theorem listActionItems_empty_meetingId_witness:
  "caller (signed_in alice) = Some alice
   \<and> listActionItems (signed_in alice) (Some \<lparr> la_meetingId = Some '''' \<rparr>) store
       = listActionItems (signed_in alice) None store
   \<and> fst (listActionItems (signed_in alice) (Some \<lparr> la_meetingId = Some '''' \<rparr>) store)
       \<noteq> Inl NOT_FOUND
   \<and> listActionItems (signed_in alice) (Some \<lparr> la_meetingId = Some '''' \<rparr>) store
       = (Inr [todo, invite], store)
   \<and> unnamed \<in> set (Meetings unnamed_store) \<and> m_id unnamed = ''''
   \<and> m_userId unnamed = user_id alice
   \<and> listActionItems (signed_in alice) (Some \<lparr> la_meetingId = Some '''' \<rparr>) unnamed_store
       = listActionItems (signed_in alice) None unnamed_store
   \<and> listActionItems (signed_in alice) (Some \<lparr> la_meetingId = Some '''' \<rparr>) unnamed_store
       = (Inr [todo, invite, stray], unnamed_store)"
proof -
  note t = listActionItems_empty_meetingId
    [where ctx = "signed_in alice" and d = store and u = alice]
  note t' = listActionItems_empty_meetingId
    [where ctx = "signed_in alice" and d = unnamed_store and u = alice]
  have a: "listActionItems (signed_in alice) (Some \<lparr> la_meetingId = Some '''' \<rparr>) store
       = (Inr [todo, invite], store)"
    using t [THEN conjunct2, THEN conjunct2, rule_format, OF caller_signed_in]
    by (simp add: items_alice)
  have b: "listActionItems (signed_in alice) None store = (Inr [todo, invite], store)"
    by (rule trans [OF t [THEN conjunct1, symmetric] a])
  have a': "listActionItems (signed_in alice) (Some \<lparr> la_meetingId = Some '''' \<rparr>)
         unnamed_store = (Inr [todo, invite, stray], unnamed_store)"
    using t' [THEN conjunct2, THEN conjunct2, rule_format, OF caller_signed_in]
    by (simp add: items_alice_unnamed)
  have b': "listActionItems (signed_in alice) None unnamed_store
       = (Inr [todo, invite, stray], unnamed_store)"
    by (rule trans [OF t' [THEN conjunct1, symmetric] a'])
  have "unnamed \<in> set (Meetings unnamed_store)" "m_id unnamed = ''''"
    "m_userId unnamed = user_id alice"
    by (simp_all add: unnamed_store_def unnamed_def alice_def)
  then show ?thesis by (simp add: caller_signed_in a b a' b')
qed

end
